theory Spec2Isabelle
  imports Complex_Main "HOL-Library.Char_ord" "HOL-Library.List_Lexorder" "HOL-Library.Multiset"
begin

section \<open>Data model\<close>

text \<open>
  The documents of the three Mongoose collections, as the controllers use them.
  An ObjectId is the string the controllers compare with \<open>toString()\<close>; a Date is
  the number of milliseconds since the epoch; a field that may be \<open>null\<close> or
  \<open>undefined\<close> is an option.
\<close>

type_synonym oid = string
type_synonym date = int

record timeline_entry =
  te_status :: string
  te_timestamp :: date
  te_comment :: "string option"
  te_updatedBy :: oid

record feedback_t =
  fb_rating :: "int option"
  fb_comment :: "string option"
  fb_submittedAt :: date

record image =
  img_url :: string
  img_caption :: string
  img_uploadedAt :: date

record report =
  r_id :: oid
  title :: string
  description :: string
  category :: string
  priority :: string
  status :: string
  city :: "string option"
  images :: "image list"
  submittedBy :: oid
  assignedTo :: "oid option"
  timeline :: "timeline_entry list"
  feedback :: "feedback_t option"
  createdAt :: date
  updatedAt :: date

record user =
  u_id :: oid
  firstName :: string
  lastName :: string
  email :: string
  password :: string
  role :: string
  isActive :: bool

record notification =
  n_recipient :: oid
  n_type :: string
  n_title :: string
  n_message :: string
  n_relatedTo :: "(string \<times> oid) option"
  isRead :: bool
  readAt :: "date option"
  n_priority :: string
  n_createdAt :: date
  n_updatedAt :: date

text \<open>
  The database: the three collections in insertion order. Notifications are only
  ever appended, so the position of a notification in its collection identifies it.
\<close>

record db =
  reports :: "report list"
  users :: "user list"
  notifications :: "notification list"

text \<open>
  What a handler hands to \<open>next\<close>: an \<open>ApiError\<close> with message and HTTP status, a
  Mongoose validation error raised by \<open>save\<close>, a Mongoose cast error raised when a
  malformed identifier reaches \<open>findById\<close>, or an error of the database server. The
  error middleware answers the last three with status 500.
\<close>

datatype api_error =
  ApiError string nat | ValidationError string | CastError string | MongoError string

type_synonym 'a result = "(api_error + 'a) \<times> db"


section \<open>Report model (report.model.js)\<close>

definition statusEnum :: "string list" where
  "statusEnum = [''submitted'', ''in_review'', ''assigned'', ''in_progress'', ''resolved'', ''closed'']"

text \<open>
  Schema validation of the paths the operations below modify: the \<open>status\<close> enum, the
  \<open>status\<close> enum of every timeline entry, and the range of the feedback rating.
\<close>

definition validFeedback :: "feedback_t option \<Rightarrow> bool" where
  "validFeedback f =
     (case f of None \<Rightarrow> True
      | Some fb \<Rightarrow> (case fb_rating fb of None \<Rightarrow> True | Some n \<Rightarrow> 1 \<le> n \<and> n \<le> 5))"

definition validReport :: "report \<Rightarrow> bool" where
  "validReport r =
     (status r \<in> set statusEnum
      \<and> list_all (\<lambda>e. te_status e \<in> set statusEnum) (timeline r)
      \<and> validFeedback (feedback r))"

fun findById :: "oid \<Rightarrow> report list \<Rightarrow> report option" where
  "findById i [] = None"
| "findById i (r # rs) = (if r_id r = i then Some r else findById i rs)"

fun findUserById :: "oid \<Rightarrow> user list \<Rightarrow> user option" where
  "findUserById i [] = None"
| "findUserById i (u # us) = (if u_id u = i then Some u else findUserById i us)"

text \<open>\<open>document.save()\<close>: validate, stamp \<open>updatedAt\<close>, replace the stored document.\<close>

definition save :: "date \<Rightarrow> report \<Rightarrow> db \<Rightarrow> report result" where
  "save now r d =
     (if validReport r
      then (let r' = r\<lparr>updatedAt := now\<rparr>
            in (Inr r', d\<lparr>reports := map (\<lambda>x. if r_id x = r_id r then r' else x) (reports d)\<rparr>))
      else (Inl (ValidationError ''Validation failed''), d))"

text \<open>\<open>reportSchema.methods.addTimelineEvent\<close>: push the entry, set the status, save.\<close>

definition pushTimeline :: "date \<Rightarrow> string \<Rightarrow> string option \<Rightarrow> oid \<Rightarrow> report \<Rightarrow> report" where
  "pushTimeline now st cm uid r =
     r\<lparr>timeline := timeline r @
          [\<lparr>te_status = st, te_timestamp = now, te_comment = cm, te_updatedBy = uid\<rparr>],
       status := st\<rparr>"

definition addTimelineEvent ::
  "date \<Rightarrow> string \<Rightarrow> string option \<Rightarrow> oid \<Rightarrow> report \<Rightarrow> db \<Rightarrow> report result" where
  "addTimelineEvent now st cm uid r d = save now (pushTimeline now st cm uid r) d"

section \<open>Notification model\<close>

text \<open>
  \<open>Notification.create\<close> / \<open>createNotification\<close>: the schema defaults fill \<open>isRead\<close>,
  \<open>readAt\<close> and, when the caller gives none, \<open>priority\<close>.
\<close>

definition newNotification ::
  "date \<Rightarrow> oid \<Rightarrow> string \<Rightarrow> string \<Rightarrow> string \<Rightarrow> (string \<times> oid) option \<Rightarrow> string option
     \<Rightarrow> notification" where
  "newNotification now rcp ty ttl msg rel prio =
     \<lparr>n_recipient = rcp, n_type = ty, n_title = ttl, n_message = msg, n_relatedTo = rel,
      isRead = False, readAt = None,
      n_priority = (case prio of None \<Rightarrow> ''normal'' | Some p \<Rightarrow> p),
      n_createdAt = now, n_updatedAt = now\<rparr>"

definition createNotification :: "notification \<Rightarrow> db \<Rightarrow> db" where
  "createNotification n d = d\<lparr>notifications := notifications d @ [n]\<rparr>"

text \<open>
  \<open>notificationSchema.methods.markAsRead\<close>: both fields are assigned on every call;
  \<open>save\<close> stamps \<open>updatedAt\<close> when the assignment changed the document.
\<close>

definition markAsRead :: "date \<Rightarrow> notification \<Rightarrow> notification" where
  "markAsRead now n =
     (let n' = n\<lparr>isRead := True, readAt := Some now\<rparr>
      in if n' = n then n else n'\<lparr>n_updatedAt := now\<rparr>)"

section \<open>Report controller (report.controller.js)\<close>

text \<open>\<open>String.prototype.replace\<close> with a string pattern: the first occurrence only.\<close>

fun replaceFirst :: "char \<Rightarrow> char \<Rightarrow> string \<Rightarrow> string" where
  "replaceFirst a b [] = []"
| "replaceFirst a b (c # cs) = (if c = a then b # cs else c # replaceFirst a b cs)"

definition dquote :: string where
  "dquote = [CHR 0x22]"

text \<open>
  Every handler takes the clock reading \<open>now\<close> that its \<open>new Date()\<close> calls return, the
  predicate \<open>isValid\<close> (\<open>mongoose.Types.ObjectId.isValid\<close>, which also decides whether
  \<open>findById\<close> can cast the identifier), the authenticated \<open>req.user\<close>, the request
  parameters, and the database. It returns what it passes to \<open>res.json\<close> or to \<open>next\<close>,
  with the database it leaves behind.
\<close>

definition updateReportStatus ::
  "date \<Rightarrow> (oid \<Rightarrow> bool) \<Rightarrow> user \<Rightarrow> oid \<Rightarrow> string \<Rightarrow> string option \<Rightarrow> db \<Rightarrow> report result" where
  "updateReportStatus now isValid actor rid st cm d =
     (if \<not> isValid rid then (Inl (CastError ''Cast to ObjectId failed''), d)
      else case findById rid (reports d) of
        None \<Rightarrow> (Inl (ApiError ''Report not found'' 404), d)
      | Some rep \<Rightarrow>
          if role actor = ''user'' \<and> (st \<noteq> ''closed'' \<or> status rep \<noteq> ''resolved'')
          then (Inl (ApiError ''You do not have permission to update this report status'' 403), d)
          else if role actor = ''employee''
                  \<and> assignedTo rep \<noteq> None \<and> assignedTo rep \<noteq> Some (u_id actor)
          then (Inl (ApiError ''You do not have permission to update this report'' 403), d)
          else if role actor = ''employee''
                  \<and> st \<notin> set [''in_progress'', ''resolved'']
          then (Inl (ApiError ''You can only update status to in_progress or resolved'' 400), d)
          else (case addTimelineEvent now st cm (u_id actor) rep d of
                  (Inl e, d') \<Rightarrow> (Inl e, d')
                | (Inr rep', d') \<Rightarrow>
                    (Inr rep',
                     createNotification
                       (newNotification now (submittedBy rep') ''report_status''
                          ''Report Status Updated''
                          (''Your report '' @ dquote @ title rep' @ dquote @ '' has been updated to ''
                             @ replaceFirst (CHR ''_'') (CHR '' '') st)
                          (Some (''Report'', r_id rep')) None) d')))"

definition assignReport ::
  "date \<Rightarrow> (oid \<Rightarrow> bool) \<Rightarrow> user \<Rightarrow> oid \<Rightarrow> oid \<Rightarrow> string option \<Rightarrow> db \<Rightarrow> report result" where
  "assignReport now isValid actor rid employeeId cm d =
     (if role actor \<noteq> ''admin''
      then (Inl (ApiError ''You do not have permission to assign reports'' 403), d)
      else if \<not> isValid employeeId then (Inl (CastError ''Cast to ObjectId failed''), d)
      else case findUserById employeeId (users d) of
        None \<Rightarrow> (Inl (ApiError ''Invalid employee ID'' 400), d)
      | Some employee \<Rightarrow>
          if role employee \<noteq> ''employee'' then (Inl (ApiError ''Invalid employee ID'' 400), d)
          else if \<not> isValid rid then (Inl (CastError ''Cast to ObjectId failed''), d)
          else (case findById rid (reports d) of
            None \<Rightarrow> (Inl (ApiError ''Report not found'' 404), d)
          | Some rep \<Rightarrow>
              (case addTimelineEvent now ''assigned''
                      (Some (case cm of None \<Rightarrow> ''Report assigned to employee''
                             | Some c \<Rightarrow> if c = [] then ''Report assigned to employee'' else c))
                      (u_id actor)
                      (rep\<lparr>assignedTo := Some employeeId, status := ''assigned''\<rparr>) d of
                 (Inl e, d') \<Rightarrow> (Inl e, d')
               | (Inr rep', d') \<Rightarrow>
                   (Inr rep',
                    createNotification
                      (newNotification now employeeId ''assignment'' ''New Report Assigned''
                         (''You have been assigned to report: '' @ title rep')
                         (Some (''Report'', r_id rep'))
                         (Some (if priority rep' = ''critical'' then ''high'' else ''normal''))) d'))))"

definition addFeedback ::
  "date \<Rightarrow> (oid \<Rightarrow> bool) \<Rightarrow> user \<Rightarrow> oid \<Rightarrow> int option \<Rightarrow> string option \<Rightarrow> db \<Rightarrow> report result" where
  "addFeedback now isValid actor rid rating cm d =
     (if \<not> isValid rid then (Inl (CastError ''Cast to ObjectId failed''), d)
      else case findById rid (reports d) of
        None \<Rightarrow> (Inl (ApiError ''Report not found'' 404), d)
      | Some rep \<Rightarrow>
          if submittedBy rep \<noteq> u_id actor
          then (Inl (ApiError ''You can only provide feedback for your own reports'' 403), d)
          else if status rep \<noteq> ''resolved''
          then (Inl (ApiError ''You can only provide feedback for resolved reports'' 400), d)
          else (case addTimelineEvent now ''closed''
                       (Some ''Feedback provided and report closed'') (u_id actor)
                       (rep\<lparr>feedback :=
                          Some \<lparr>fb_rating = rating, fb_comment = cm, fb_submittedAt = now\<rparr>\<rparr>) d of
                  (Inl e, d') \<Rightarrow> (Inl e, d')
                | (Inr rep', d') \<Rightarrow>
                    (Inr rep',
                     (case assignedTo rep' of
                        None \<Rightarrow> d'
                      | Some a \<Rightarrow>
                          createNotification
                            (newNotification now a ''feedback'' ''Feedback Received''
                               (''Feedback received for report: '' @ title rep')
                               (Some (''Report'', r_id rep')) None) d'))))"

section \<open>Field worker status route (fieldworker.routes.js)\<close>

text \<open>
  \<open>PATCH /api/fieldworker/reports/:id/status\<close>, behind \<open>restrictTo('employee')\<close>.
\<close>

definition fieldworkerUpdateStatus ::
  "date \<Rightarrow> (oid \<Rightarrow> bool) \<Rightarrow> user \<Rightarrow> oid \<Rightarrow> string \<Rightarrow> string option \<Rightarrow> db \<Rightarrow> report result" where
  "fieldworkerUpdateStatus now isValid actor rid st cm d =
     (if role actor \<notin> set [''employee'']
      then (Inl (ApiError ''You do not have permission to perform this action'' 403), d)
      else if st \<notin> set [''in_progress'', ''resolved'']
      then (Inl (ApiError ''Invalid status. Allowed statuses: in_progress, resolved'' 400), d)
      else if \<not> isValid rid then (Inl (CastError ''Cast to ObjectId failed''), d)
      else case findById rid (reports d) of
        None \<Rightarrow> (Inl (ApiError ''Report not found'' 404), d)
      | Some rep \<Rightarrow>
          if assignedTo rep = None \<or> assignedTo rep \<noteq> Some (u_id actor)
          then (Inl (ApiError ''You can only update status of reports assigned to you'' 403), d)
          else (case addTimelineEvent now st
                       (Some (case cm of None \<Rightarrow> ''Status updated to '' @ st
                              | Some c \<Rightarrow> if c = [] then ''Status updated to '' @ st else c))
                       (u_id actor) rep d of
                  (Inl e, d') \<Rightarrow> (Inl e, d')
                | (Inr rep', d') \<Rightarrow>
                    (Inr rep',
                     if st = ''resolved''
                     then createNotification
                            (newNotification now (submittedBy rep') ''report_status''
                               ''Report Resolved''
                               (''Your report '' @ dquote @ title rep' @ dquote
                                  @ '' has been resolved by our field team.'')
                               (Some (''Report'', r_id rep')) None) d'
                     else d')))"

section \<open>Bulk operations (admin.controller.js)\<close>

text \<open>
  \<open>Report.find({ _id: { $in: ids } })\<close>: the stored documents whose identifier is listed,
  each once, in collection order.
\<close>

definition findByIds :: "oid list \<Rightarrow> report list \<Rightarrow> report list" where
  "findByIds ids rs = filter (\<lambda>r. r_id r \<in> set ids) rs"

text \<open>
  The three \<open>reports.map(async (report) => ...)\<close> bodies, joined by \<open>Promise.all\<close>. The
  bodies touch different documents; the model runs them in the order of the found list.
  A body that throws makes \<open>Promise.all\<close> reject while the other bodies still run to
  completion, so the loop carries a flag and keeps going.
\<close>

definition resolvedNotification :: "date \<Rightarrow> report \<Rightarrow> notification" where
  "resolvedNotification now rep =
     newNotification now (submittedBy rep) ''report_status'' ''Report Resolved''
       (''Your report '' @ dquote @ title rep @ dquote @ '' has been resolved.'')
       (Some (''Report'', r_id rep)) None"

fun bulkStatusLoop :: "date \<Rightarrow> string \<Rightarrow> string \<Rightarrow> oid \<Rightarrow> report list \<Rightarrow> db \<Rightarrow> bool \<times> db" where
  "bulkStatusLoop now st cm uid [] d = (True, d)"
| "bulkStatusLoop now st cm uid (rep # reps) d =
     (case addTimelineEvent now st (Some cm) uid rep d of
        (Inl e, d') \<Rightarrow> (False, snd (bulkStatusLoop now st cm uid reps d'))
      | (Inr rep', d') \<Rightarrow>
          bulkStatusLoop now st cm uid reps
            (if st = ''resolved'' then createNotification (resolvedNotification now rep') d'
             else d'))"

definition bulkUpdateReportStatus ::
  "date \<Rightarrow> (oid \<Rightarrow> bool) \<Rightarrow> user \<Rightarrow> oid list \<Rightarrow> string \<Rightarrow> string option \<Rightarrow> db
     \<Rightarrow> (nat \<times> string \<times> oid list) result" where
  "bulkUpdateReportStatus now isValid actor reportIds st cm d =
     (if reportIds = []
      then (Inl (ApiError ''reportIds must be a non-empty array'' 400), d)
      else if st \<notin> set statusEnum then (Inl (ApiError ''Invalid status'' 400), d)
      else if length (filter isValid reportIds) \<noteq> length reportIds
      then (Inl (ApiError ''All reportIds must be valid ObjectIds'' 400), d)
      else let found = findByIds (filter isValid reportIds) (reports d) in
        if length found = 0
        then (Inl (ApiError ''No reports found with the provided IDs'' 404), d)
        else (case bulkStatusLoop now st
                     (case cm of None \<Rightarrow> ''Bulk status update to '' @ st
                      | Some c \<Rightarrow> if c = [] then ''Bulk status update to '' @ st else c)
                     (u_id actor) found d of
                (True, d') \<Rightarrow> (Inr (length found, st, map r_id found), d')
              | (False, d') \<Rightarrow> (Inl (ApiError ''Failed to bulk update reports'' 500), d')))"

definition assignmentNotification :: "date \<Rightarrow> oid \<Rightarrow> report \<Rightarrow> notification" where
  "assignmentNotification now assigneeId rep =
     newNotification now assigneeId ''assignment'' ''New Report Assigned''
       (''You have been assigned a new report: '' @ dquote @ title rep @ dquote)
       (Some (''Report'', r_id rep)) None"

fun bulkAssignLoop :: "date \<Rightarrow> user \<Rightarrow> oid \<Rightarrow> oid \<Rightarrow> report list \<Rightarrow> db \<Rightarrow> bool \<times> db" where
  "bulkAssignLoop now assignee assigneeId uid [] d = (True, d)"
| "bulkAssignLoop now assignee assigneeId uid (rep # reps) d =
     (case addTimelineEvent now ''assigned''
             (Some (''Assigned to '' @ firstName assignee @ '' '' @ lastName assignee)) uid
             (rep\<lparr>assignedTo := Some assigneeId\<rparr>) d of
        (Inl e, d') \<Rightarrow> (False, snd (bulkAssignLoop now assignee assigneeId uid reps d'))
      | (Inr rep', d') \<Rightarrow>
          bulkAssignLoop now assignee assigneeId uid reps
            (createNotification (assignmentNotification now assigneeId rep') d'))"

definition bulkAssignReports ::
  "date \<Rightarrow> (oid \<Rightarrow> bool) \<Rightarrow> user \<Rightarrow> oid list \<Rightarrow> oid \<Rightarrow> db \<Rightarrow> (nat \<times> oid \<times> oid list) result" where
  "bulkAssignReports now isValid actor reportIds assigneeId d =
     (if reportIds = []
      then (Inl (ApiError ''reportIds must be a non-empty array'' 400), d)
      else if \<not> isValid assigneeId then (Inl (ApiError ''Invalid assigneeId'' 400), d)
      else if length (filter isValid reportIds) \<noteq> length reportIds
      then (Inl (ApiError ''All reportIds must be valid ObjectIds'' 400), d)
      else case findUserById assigneeId (users d) of
        None \<Rightarrow> (Inl (ApiError ''Assignee not found'' 404), d)
      | Some assignee \<Rightarrow>
          if role assignee \<noteq> ''employee''
          then (Inl (ApiError ''Can only assign reports to employees'' 400), d)
          else let found = findByIds (filter isValid reportIds) (reports d) in
            if length found = 0
            then (Inl (ApiError ''No reports found with the provided IDs'' 404), d)
            else (case bulkAssignLoop now assignee assigneeId (u_id actor) found d of
                    (True, d') \<Rightarrow> (Inr (length found, u_id assignee, map r_id found), d')
                  | (False, d') \<Rightarrow> (Inl (ApiError ''Failed to bulk assign reports'' 500), d')))"

definition closedNotification :: "date \<Rightarrow> string option \<Rightarrow> report \<Rightarrow> notification" where
  "closedNotification now reason rep =
     newNotification now (submittedBy rep) ''report_status'' ''Report Closed''
       (''Your report '' @ dquote @ title rep @ dquote @ '' has been closed. ''
          @ (case reason of None \<Rightarrow> [] | Some c \<Rightarrow> if c = [] then [] else ''Reason: '' @ c))
       (Some (''Report'', r_id rep)) None"

fun bulkDeleteLoop :: "date \<Rightarrow> string option \<Rightarrow> oid \<Rightarrow> report list \<Rightarrow> db \<Rightarrow> bool \<times> db" where
  "bulkDeleteLoop now reason uid [] d = (True, d)"
| "bulkDeleteLoop now reason uid (rep # reps) d =
     (case addTimelineEvent now ''closed''
             (Some (case reason of None \<Rightarrow> ''Report closed by administrator''
                    | Some c \<Rightarrow> if c = [] then ''Report closed by administrator'' else c))
             uid rep d of
        (Inl e, d') \<Rightarrow> (False, snd (bulkDeleteLoop now reason uid reps d'))
      | (Inr rep', d') \<Rightarrow>
          bulkDeleteLoop now reason uid reps
            (createNotification (closedNotification now reason rep') d'))"

definition bulkDeleteReports ::
  "date \<Rightarrow> (oid \<Rightarrow> bool) \<Rightarrow> user \<Rightarrow> oid list \<Rightarrow> string option \<Rightarrow> db
     \<Rightarrow> (nat \<times> oid list) result" where
  "bulkDeleteReports now isValid actor reportIds reason d =
     (if reportIds = []
      then (Inl (ApiError ''reportIds must be a non-empty array'' 400), d)
      else if length (filter isValid reportIds) \<noteq> length reportIds
      then (Inl (ApiError ''All reportIds must be valid ObjectIds'' 400), d)
      else let found = findByIds (filter isValid reportIds) (reports d) in
        if length found = 0
        then (Inl (ApiError ''No reports found with the provided IDs'' 404), d)
        else (case bulkDeleteLoop now reason (u_id actor) found d of
                (True, d') \<Rightarrow> (Inr (length found, map r_id found), d')
              | (False, d') \<Rightarrow> (Inl (ApiError ''Failed to bulk close reports'' 500), d')))"

section \<open>Queries: sorting and paging\<close>

text \<open>
  The value of a sort field in a document. In the BSON order an absent or \<open>null\<close> value
  comes before every number and every string, numbers and dates are compared as
  numbers, strings and identifiers bytewise. Sorting by an array or by a field outside
  the record treats the field as absent.
\<close>

datatype sortval = SNull | SNum int | SStr string

fun sv_le :: "sortval \<Rightarrow> sortval \<Rightarrow> bool" where
  "sv_le SNull y = True"
| "sv_le (SNum a) SNull = False"
| "sv_le (SNum a) (SNum b) = (a \<le> b)"
| "sv_le (SNum a) (SStr b) = True"
| "sv_le (SStr a) (SStr b) = (a \<le> b)"
| "sv_le (SStr a) y = False"

definition fieldValue :: "string \<Rightarrow> report \<Rightarrow> sortval" where
  "fieldValue f r =
     (if f = ''createdAt'' then SNum (createdAt r)
      else if f = ''updatedAt'' then SNum (updatedAt r)
      else if f = ''_id'' then SStr (r_id r)
      else if f = ''title'' then SStr (title r)
      else if f = ''description'' then SStr (description r)
      else if f = ''category'' then SStr (category r)
      else if f = ''priority'' then SStr (priority r)
      else if f = ''status'' then SStr (status r)
      else if f = ''submittedBy'' then SStr (submittedBy r)
      else if f = ''assignedTo'' then (case assignedTo r of None \<Rightarrow> SNull | Some a \<Rightarrow> SStr a)
      else if f = ''location.address.city'' then (case city r of None \<Rightarrow> SNull | Some c \<Rightarrow> SStr c)
      else SNull)"

fun insertBy :: "('a \<Rightarrow> 'a \<Rightarrow> bool) \<Rightarrow> 'a \<Rightarrow> 'a list \<Rightarrow> 'a list" where
  "insertBy le x [] = [x]"
| "insertBy le x (y # ys) = (if le x y then x # y # ys else y # insertBy le x ys)"

definition sortDocs :: "string \<Rightarrow> int \<Rightarrow> report list \<Rightarrow> report list" where
  "sortDocs f dir rs =
     foldr (insertBy (\<lambda>x y. if dir = 1 then sv_le (fieldValue f x) (fieldValue f y)
                            else sv_le (fieldValue f y) (fieldValue f x))) rs []"

text \<open>
  \<open>find(query).sort(sort).skip(skip).limit(limit)\<close>: the server rejects a negative skip;
  the driver sends a negative limit as its absolute value; a limit of zero is no limit.
\<close>

definition findPage ::
  "(report \<Rightarrow> bool) \<Rightarrow> string \<Rightarrow> int \<Rightarrow> int \<Rightarrow> int \<Rightarrow> report list \<Rightarrow> api_error + report list" where
  "findPage q f dir skip limit rs =
     (if skip < 0 then Inl (MongoError ''Skip value must be non-negative'')
      else let hits = drop (nat skip) (sortDocs f dir (filter q rs))
           in Inr (if limit = 0 then hits else take (nat \<bar>limit\<bar>) hits))"

definition countDocuments :: "(report \<Rightarrow> bool) \<Rightarrow> report list \<Rightarrow> int" where
  "countDocuments q rs = int (length (filter q rs))"

section \<open>getReports (report.controller.js)\<close>


text \<open>A JavaScript string is truthy when it is present and not empty.\<close>

definition truthy :: "string option \<Rightarrow> bool" where
  "truthy p = (case p of None \<Rightarrow> False | Some s \<Rightarrow> s \<noteq> [])"



record pagination =
  currentPage :: int
  totalPages :: int
  pageLimit :: int







section \<open>advancedReportSearch (admin.controller.js)\<close>

text \<open>
  What the query-string parser hands the controller for a parameter that may be
  repeated: one string (\<open>status=a\<close>, and also \<open>status=a,b\<close>) or an array of strings
  (\<open>status=a&status=b\<close>).
\<close>

datatype qvalue = QStr string | QArr "string list"

text \<open>
  The query string of \<open>GET /api/admin/reports/search\<close>. \<open>s_page\<close> and \<open>s_limit\<close> are
  the results of \<open>parseInt\<close> on the parameter or on its default (1 and 20), \<open>None\<close> for
  \<open>NaN\<close>.
\<close>

record search_query =
  s_page :: "int option"
  s_limit :: "int option"
  s_search :: "string option"
  s_status :: "qvalue option"
  s_category :: "qvalue option"
  s_priority :: "qvalue option"
  s_assignedTo :: "string option"
  s_submittedBy :: "string option"
  s_dateFrom :: "string option"
  s_dateTo :: "string option"
  s_location :: "string option"
  s_sortBy :: "string option"
  s_sortOrder :: "string option"
  s_hasImages :: "string option"
  s_hasFeedback :: "string option"

text \<open>
  The services the search calls: \<open>ObjectId.isValid\<close>, the server's case-insensitive
  \<open>$regex\<close> match of a pattern against a string, and \<open>new Date(string)\<close>, \<open>None\<close> for an
  invalid date.
\<close>

record services =
  objectIdValid :: "string \<Rightarrow> bool"
  regexMatchI :: "string \<Rightarrow> string \<Rightarrow> bool"
  parseDate :: "string \<Rightarrow> date option"

text \<open>The \<open>query\<close> object under construction: one optional condition per key.\<close>

datatype strcond = Eq string | In "string list"

record mquery =
  m_searchOr :: "string option"
  m_status :: "strcond option"
  m_category :: "strcond option"
  m_priority :: "strcond option"
  m_assignedTo :: "oid option option"
  m_submittedBy :: "oid option"
  m_createdAt :: "(date option option \<times> date option option) option"
  m_city :: "string option"
  m_images0Exists :: "bool option"
  m_feedbackRatingExists :: "bool option"

definition qtruthy :: "qvalue option \<Rightarrow> bool" where
  "qtruthy p = (case p of None \<Rightarrow> False | Some (QStr s) \<Rightarrow> s \<noteq> [] | Some (QArr xs) \<Rightarrow> True)"

definition fieldCond :: "qvalue option \<Rightarrow> strcond option" where
  "fieldCond p =
     (if qtruthy p
      then (case p of Some (QArr xs) \<Rightarrow> Some (In xs) | Some (QStr s) \<Rightarrow> Some (Eq s) | None \<Rightarrow> None)
      else None)"

definition existsCond :: "string option \<Rightarrow> bool option" where
  "existsCond p =
     (case p of None \<Rightarrow> None
      | Some s \<Rightarrow> if s = ''true'' then Some True else if s = ''false'' then Some False else None)"

definition buildQuery :: "services \<Rightarrow> search_query \<Rightarrow> mquery" where
  "buildQuery sv q =
     \<lparr>m_searchOr = (if truthy (s_search q) then s_search q else None),
      m_status = fieldCond (s_status q),
      m_category = fieldCond (s_category q),
      m_priority = fieldCond (s_priority q),
      m_assignedTo =
        (case s_assignedTo q of None \<Rightarrow> None
         | Some a \<Rightarrow> if a = [] then None
                    else if a = ''unassigned'' then Some None
                    else if objectIdValid sv a then Some (Some a) else None),
      m_submittedBy =
        (case s_submittedBy q of None \<Rightarrow> None
         | Some a \<Rightarrow> if a \<noteq> [] \<and> objectIdValid sv a then Some a else None),
      m_createdAt =
        (if truthy (s_dateFrom q) \<or> truthy (s_dateTo q)
         then Some (if truthy (s_dateFrom q) then map_option (parseDate sv) (s_dateFrom q) else None,
                    if truthy (s_dateTo q) then map_option (parseDate sv) (s_dateTo q) else None)
         else None),
      m_city = (if truthy (s_location q) then s_location q else None),
      m_images0Exists = existsCond (s_hasImages q),
      m_feedbackRatingExists = existsCond (s_hasFeedback q)\<rparr>"

text \<open>
  Each date bound of the built query is absent, or the result of \<open>new Date\<close>; a bound
  that is an invalid date cannot be cast, and the search fails.
\<close>

definition boundOk :: "date option option \<Rightarrow> bool" where
  "boundOk b = (b \<noteq> Some None)"

definition queryCastable :: "mquery \<Rightarrow> bool" where
  "queryCastable m =
     (case m_createdAt m of None \<Rightarrow> True | Some (lo, hi) \<Rightarrow> boundOk lo \<and> boundOk hi)"

text \<open>How the server evaluates the query object on a document.\<close>

definition condHolds :: "strcond option \<Rightarrow> string \<Rightarrow> bool" where
  "condHolds c v = (case c of None \<Rightarrow> True | Some (Eq s) \<Rightarrow> v = s | Some (In xs) \<Rightarrow> v \<in> set xs)"

definition hasFeedbackRating :: "report \<Rightarrow> bool" where
  "hasFeedbackRating r = (case feedback r of None \<Rightarrow> False | Some fb \<Rightarrow> fb_rating fb \<noteq> None)"

definition matches :: "services \<Rightarrow> mquery \<Rightarrow> report \<Rightarrow> bool" where
  "matches sv m r =
     ((case m_searchOr m of None \<Rightarrow> True
       | Some p \<Rightarrow> regexMatchI sv p (title r) \<or> regexMatchI sv p (description r))
      \<and> condHolds (m_status m) (status r)
      \<and> condHolds (m_category m) (category r)
      \<and> condHolds (m_priority m) (priority r)
      \<and> (case m_assignedTo m of None \<Rightarrow> True | Some a \<Rightarrow> assignedTo r = a)
      \<and> (case m_submittedBy m of None \<Rightarrow> True | Some a \<Rightarrow> submittedBy r = a)
      \<and> (case m_createdAt m of None \<Rightarrow> True
         | Some (lo, hi) \<Rightarrow>
             (case lo of Some (Some t) \<Rightarrow> t \<le> createdAt r | _ \<Rightarrow> True)
             \<and> (case hi of Some (Some t) \<Rightarrow> createdAt r \<le> t | _ \<Rightarrow> True))
      \<and> (case m_city m of None \<Rightarrow> True
         | Some p \<Rightarrow> (case city r of None \<Rightarrow> False | Some c \<Rightarrow> regexMatchI sv p c))
      \<and> (case m_images0Exists m of None \<Rightarrow> True | Some b \<Rightarrow> (images r \<noteq> []) = b)
      \<and> (case m_feedbackRatingExists m of None \<Rightarrow> True | Some b \<Rightarrow> hasFeedbackRating r = b))"

record search_pagination =
  sp_currentPage :: int
  sp_totalPages :: "int option"
  sp_totalReports :: int
  sp_hasNextPage :: bool
  sp_hasPrevPage :: bool
  sp_limit :: int

record search_response =
  sr_reports :: "report list"
  sr_pagination :: search_pagination

text \<open>
  \<open>Math.ceil(totalReports / limit)\<close>: not an integer when the limit is zero (\<open>NaN\<close> or
  \<open>Infinity\<close>, \<open>None\<close> here); \<open>page < totalPages\<close> is then true exactly for \<open>Infinity\<close>.
\<close>

definition ceilDiv :: "int \<Rightarrow> int \<Rightarrow> int option" where
  "ceilDiv a b = (if b = 0 then None else Some \<lceil>real_of_int a / real_of_int b\<rceil>)"

definition s_sortField :: "search_query \<Rightarrow> string" where
  "s_sortField q = (case s_sortBy q of None \<Rightarrow> ''createdAt'' | Some f \<Rightarrow> f)"

definition s_sortDir :: "search_query \<Rightarrow> int" where
  "s_sortDir q = (if s_sortOrder q = Some ''asc'' then 1 else -1)"

definition advancedReportSearch :: "services \<Rightarrow> search_query \<Rightarrow> db \<Rightarrow> api_error + search_response" where
  "advancedReportSearch sv q d =
     (case (s_page q, s_limit q) of
        (Some page, Some limit) \<Rightarrow>
          (let m = buildQuery sv q;
               skip = (page - 1) * limit
           in if \<not> queryCastable m
              then Inl (ApiError ''Failed to perform advanced search'' 500)
              else case findPage (matches sv m) (s_sortField q) (s_sortDir q) skip limit
                          (reports d) of
                Inl e \<Rightarrow> Inl (ApiError ''Failed to perform advanced search'' 500)
              | Inr rs \<Rightarrow>
                  (let totalReports = countDocuments (matches sv m) (reports d);
                       totalPages = ceilDiv totalReports limit
                   in Inr \<lparr>sr_reports = rs,
                           sr_pagination =
                             \<lparr>sp_currentPage = page, sp_totalPages = totalPages,
                              sp_totalReports = totalReports,
                              sp_hasNextPage =
                                (case totalPages of Some tp \<Rightarrow> page < tp
                                 | None \<Rightarrow> 0 < totalReports),
                              sp_hasPrevPage = (1 < page),
                              sp_limit = limit\<rparr>\<rparr>))
      | _ \<Rightarrow> Inl (ApiError ''Failed to perform advanced search'' 500))"

section \<open>Resolution time in getSystemStatistics (admin.controller.js)\<close>

text \<open>
  The performance pipeline: \<open>$match\<close> on the current status and on the presence of a
  resolved timeline entry, \<open>$addFields\<close> with the time from creation to the first such
  entry, \<open>$group\<close> into one document (none when nothing matched). \<open>$avg\<close> divides as
  a double; the model divides exactly.
\<close>

definition matchResolved :: "report \<Rightarrow> bool" where
  "matchResolved r =
     (status r = ''resolved'' \<and> list_ex (\<lambda>e. te_status e = ''resolved'') (timeline r))"

definition resolutionTime :: "report \<Rightarrow> int option" where
  "resolutionTime r =
     (case map te_timestamp (filter (\<lambda>e. te_status e = ''resolved'') (timeline r)) of
        [] \<Rightarrow> None
      | t # ts \<Rightarrow> Some (t - createdAt r))"

fun numericValues :: "int option list \<Rightarrow> int list" where
  "numericValues [] = []"
| "numericValues (None # xs) = numericValues xs"
| "numericValues (Some v # xs) = v # numericValues xs"

record performance_group =
  averageResolutionTime :: "real option"
  totalResolved :: nat

definition performanceStats :: "report list \<Rightarrow> performance_group option" where
  "performanceStats rs =
     (let ms = filter matchResolved rs;
          vs = numericValues (map resolutionTime ms)
      in if ms = [] then None
         else Some \<lparr>averageResolutionTime =
                      (if vs = [] then None
                       else Some (real_of_int (sum_list vs) / real (length vs))),
                    totalResolved = length ms\<rparr>)"

text \<open>
  \<open>performanceStats[0] ? Math.round(averageResolutionTime / (1000 * 60 * 60)) : 0\<close>;
  a \<open>null\<close> average divides to 0.
\<close>

definition averageResolutionHours :: "report list \<Rightarrow> int" where
  "averageResolutionHours rs =
     (case performanceStats rs of
        None \<Rightarrow> 0
      | Some g \<Rightarrow> (case averageResolutionTime g of
                     None \<Rightarrow> 0
                   | Some a \<Rightarrow> round (a / (1000 * 60 * 60))))"

section \<open>register (auth.controller.js)\<close>

record register_body =
  b_firstName :: "string option"
  b_lastName :: "string option"
  b_email :: "string option"
  b_password :: "string option"
  b_role :: "string option"

text \<open>
  The user schema is declared outside these sources; \<open>User.create\<close> takes from it the
  validation of the new document and the default of \<open>isActive\<close>, and from the store
  the new identifier. A field the body lacks is the empty string in the record.
\<close>

record user_schema =
  validUser :: "user \<Rightarrow> bool"
  defaultIsActive :: bool

definition orEmpty :: "string option \<Rightarrow> string" where
  "orEmpty p = (case p of None \<Rightarrow> [] | Some s \<Rightarrow> s)"

definition userDocument :: "user_schema \<Rightarrow> oid \<Rightarrow> register_body \<Rightarrow> user" where
  "userDocument sch newId body =
     \<lparr>u_id = newId,
      firstName = orEmpty (b_firstName body),
      lastName = orEmpty (b_lastName body),
      email = orEmpty (b_email body),
      password = orEmpty (b_password body),
      role = (if b_role body = Some ''employee'' then ''employee'' else ''user''),
      isActive = defaultIsActive sch\<rparr>"

definition register :: "user_schema \<Rightarrow> oid \<Rightarrow> register_body \<Rightarrow> db \<Rightarrow> user result" where
  "register sch newId body d =
     (if list_ex (\<lambda>u. Some (email u) = b_email body) (users d)
      then (Inl (ApiError ''Email already in use'' 400), d)
      else let u = userDocument sch newId body
           in if validUser sch u then (Inr u, d\<lparr>users := users d @ [u]\<rparr>)
              else (Inl (ValidationError ''User validation failed''), d))"

section \<open>Mark a notification as read (notification.routes.js)\<close>

text \<open>
  \<open>PATCH /api/notifications/:id/read\<close>: \<open>findOne\<close> by identifier and recipient, then
  \<open>markAsRead\<close>. The identifier is the position in the collection.
\<close>

definition markNotificationRead :: "date \<Rightarrow> user \<Rightarrow> nat \<Rightarrow> db \<Rightarrow> notification result" where
  "markNotificationRead now actor i d =
     (if i < length (notifications d) \<and> n_recipient (notifications d ! i) = u_id actor
      then (let n' = markAsRead now (notifications d ! i)
            in (Inr n', d\<lparr>notifications := (notifications d)[i := n']\<rparr>))
      else (Inl (ApiError ''Notification not found'' 404), d))"

section \<open>Properties\<close>

text \<open>The status of a report agrees with the last entry of its timeline.\<close>

definition statusMatchesTimeline :: "report \<Rightarrow> bool" where
  "statusMatchesTimeline r = (timeline r \<noteq> [] \<and> status r = te_status (last (timeline r)))"

definition dbConsistent :: "db \<Rightarrow> bool" where
  "dbConsistent d = list_all statusMatchesTimeline (reports d)"

text \<open>The same, for the stored reports whose identifier is listed.\<close>

definition touchedConsistent :: "oid list \<Rightarrow> db \<Rightarrow> bool" where
  "touchedConsistent ids d =
     list_all (\<lambda>r. r_id r \<notin> set ids \<or> statusMatchesTimeline r) (reports d)"

text \<open>
  The outcome of a single transition on report \<open>rid\<close>: when the handler answers with
  a report, that report satisfies the property and is the stored one.
\<close>

definition transitionOk :: "oid \<Rightarrow> report result \<Rightarrow> bool" where
  "transitionOk rid res =
     (case res of
        (Inr r', d') \<Rightarrow> statusMatchesTimeline r' \<and> findById rid (reports d') = Some r'
      | (Inl e, d') \<Rightarrow> True)"




text \<open>
  Resolution time in the words of the specification: the timestamp of the first timeline
  entry with status \<open>resolved\<close> minus the creation timestamp; nothing for a report
  without such an entry.
\<close>

definition specResolutionTime :: "report \<Rightarrow> int option" where
  "specResolutionTime r =
     (case find (\<lambda>e. te_status e = ''resolved'') (timeline r) of
        None \<Rightarrow> None
      | Some e \<Rightarrow> Some (te_timestamp e - createdAt r))"

definition specResolutionMs :: "report \<Rightarrow> int" where
  "specResolutionMs r = (case specResolutionTime r of None \<Rightarrow> 0 | Some t \<Rightarrow> t)"




definition noSearchFilters :: "search_query \<Rightarrow> bool" where
  "noSearchFilters q =
     (s_search q = None \<and> s_status q = None \<and> s_category q = None \<and> s_priority q = None
      \<and> s_assignedTo q = None \<and> s_submittedBy q = None \<and> s_dateFrom q = None
      \<and> s_dateTo q = None \<and> s_location q = None \<and> s_hasImages q = None
      \<and> s_hasFeedback q = None)"



section \<open>Example data\<close>

text \<open>An identifier check that accepts every string.\<close>

definition exValid :: "oid \<Rightarrow> bool" where
  [simp]: "exValid i = True"

definition exReport :: report where
  "exReport = \<lparr>r_id = ''r1'', title = ''Pothole'', description = ''Deep pothole'',
     category = ''road_issue'', priority = ''high'', status = ''submitted'', city = Some ''Pune'',
     images = [], submittedBy = ''u1'', assignedTo = None,
     timeline = [\<lparr>te_status = ''submitted'', te_timestamp = 0, te_comment = Some ''Report submitted'',
                  te_updatedBy = ''u1''\<rparr>],
     feedback = None, createdAt = 0, updatedAt = 0\<rparr>"

definition exAdmin :: user where
  "exAdmin = \<lparr>u_id = ''a1'', firstName = ''Ada'', lastName = ''Admin'', email = ''ada@example.org'',
     password = ''x'', role = ''admin'', isActive = True\<rparr>"

definition exDb :: db where
  "exDb = \<lparr>reports = [exReport], users = [exAdmin], notifications = []\<rparr>"

definition exEmployee :: user where
  "exEmployee = \<lparr>u_id = ''e1'', firstName = ''Eve'', lastName = ''Field'', email = ''eve@example.org'',
     password = ''x'', role = ''employee'', isActive = True\<rparr>"

definition exCitizen :: user where
  "exCitizen = \<lparr>u_id = ''u1'', firstName = ''Uma'', lastName = ''Citizen'', email = ''uma@example.org'',
     password = ''x'', role = ''user'', isActive = True\<rparr>"

definition exResolved :: report where
  "exResolved = exReport\<lparr>status := ''resolved'', assignedTo := Some ''e1'',
     timeline := timeline exReport @
       [\<lparr>te_status = ''resolved'', te_timestamp = 172800000, te_comment = None,
         te_updatedBy = ''e1''\<rparr>]\<rparr>"

definition exDbResolved :: db where
  "exDbResolved = \<lparr>reports = [exResolved], users = [exAdmin, exEmployee, exCitizen], notifications = []\<rparr>"

definition feedbackTrace :: "report result" where
  "feedbackTrace =
     (let d1 = snd (addFeedback 200000000 exValid exCitizen ''r1'' (Some 5) (Some ''great'') exDbResolved);
          d2 = snd (updateReportStatus 200000001 exValid exAdmin ''r1'' ''resolved'' None d1)
      in addFeedback 200000002 exValid exCitizen ''r1'' (Some 1) (Some ''bad'') d2)"

definition exNotification :: notification where
  "exNotification = newNotification 10 ''u1'' ''report_status'' ''Report Resolved''
      ''Your report has been resolved.'' (Some (''Report'', ''r1'')) None"

definition exSchema :: user_schema where
  "exSchema = \<lparr>validUser = (\<lambda>u. firstName u \<noteq> [] \<and> lastName u \<noteq> [] \<and> email u \<noteq> []
                               \<and> 6 \<le> length (password u)),
               defaultIsActive = True\<rparr>"

definition exBody :: register_body where
  "exBody = \<lparr>b_firstName = Some ''Mallory'', b_lastName = Some ''Root'',
             b_email = Some ''mallory@example.org'', b_password = Some ''secret12'',
             b_role = Some ''admin''\<rparr>"

definition exClosedLater :: report where
  "exClosedLater = exReport\<lparr>status := ''closed'',
     timeline := timeline exReport @
       [\<lparr>te_status = ''resolved'', te_timestamp = 172800000, te_comment = None,
         te_updatedBy = ''e1''\<rparr>,
        \<lparr>te_status = ''closed'', te_timestamp = 180000000, te_comment = None,
         te_updatedBy = ''a1''\<rparr>]\<rparr>"

definition exResolvedTwice :: report where
  "exResolvedTwice = exReport\<lparr>status := ''resolved'',
     timeline := timeline exReport @
       [\<lparr>te_status = ''resolved'', te_timestamp = 172800000, te_comment = None,
         te_updatedBy = ''e1''\<rparr>,
        \<lparr>te_status = ''in_progress'', te_timestamp = 180000000, te_comment = None,
         te_updatedBy = ''e1''\<rparr>,
        \<lparr>te_status = ''resolved'', te_timestamp = 190000000, te_comment = None,
         te_updatedBy = ''e1''\<rparr>]\<rparr>"

definition exInReview :: report where
  "exInReview = exReport\<lparr>r_id := ''r2'', title := ''Street light'', status := ''in_review'',
     submittedBy := ''u2'', createdAt := 100, updatedAt := 150,
     timeline := timeline exReport @
       [\<lparr>te_status = ''in_review'', te_timestamp = 150, te_comment = None,
         te_updatedBy = ''a1''\<rparr>]\<rparr>"

definition exAssigned :: report where
  "exAssigned = exReport\<lparr>r_id := ''r3'', title := ''Water leak'', status := ''assigned'',
     submittedBy := ''u2'', assignedTo := Some ''e1'', createdAt := 200, updatedAt := 250,
     timeline := timeline exReport @
       [\<lparr>te_status = ''assigned'', te_timestamp = 250, te_comment = None,
         te_updatedBy = ''a1''\<rparr>]\<rparr>"

definition exDb3 :: db where
  "exDb3 = \<lparr>reports = [exReport, exInReview, exAssigned],
            users = [exAdmin, exEmployee, exCitizen], notifications = []\<rparr>"


definition exServices :: services where
  "exServices = \<lparr>objectIdValid = (\<lambda>s. length s = 24), regexMatchI = (\<lambda>p s. p = s),
                 parseDate = (\<lambda>s. None)\<rparr>"

definition exSearch :: search_query where
  "exSearch = \<lparr>s_page = Some 1, s_limit = Some 20, s_search = None, s_status = None,
               s_category = None, s_priority = None, s_assignedTo = None, s_submittedBy = None,
               s_dateFrom = None, s_dateTo = None, s_location = None, s_sortBy = None,
               s_sortOrder = None, s_hasImages = None, s_hasFeedback = None\<rparr>"

section \<open>Status and timeline\<close>

lemma pushTimeline_matches: "statusMatchesTimeline (pushTimeline now st cm uid r)"
  by (simp add: statusMatchesTimeline_def pushTimeline_def)

lemma save_result_matches:
  "statusMatchesTimeline r \<Longrightarrow> fst (save now r d) = Inr r' \<Longrightarrow> statusMatchesTimeline r'"
  by (auto simp: save_def Let_def statusMatchesTimeline_def split: if_splits)

lemma save_consistent:
  "statusMatchesTimeline r \<Longrightarrow> dbConsistent d \<Longrightarrow> dbConsistent (snd (save now r d))"
  by (auto simp: save_def Let_def dbConsistent_def list_all_iff statusMatchesTimeline_def)

lemma addTimelineEvent_result_matches:
  "addTimelineEvent now st cm uid r d = (Inr r', d') \<Longrightarrow> statusMatchesTimeline r'"
  using save_result_matches [OF pushTimeline_matches, of now now st cm uid r d r']
  by (simp add: addTimelineEvent_def)

lemma addTimelineEvent_consistent:
  "dbConsistent d \<Longrightarrow> addTimelineEvent now st cm uid r d = (x, d') \<Longrightarrow> dbConsistent d'"
  using save_consistent [OF pushTimeline_matches, of d now now st cm uid r]
  by (simp add: addTimelineEvent_def)

lemma createNotification_consistent [simp]:
  "dbConsistent (createNotification n d) = dbConsistent d"
  by (simp add: dbConsistent_def createNotification_def)

lemma updateReportStatus_consistent:
  "dbConsistent d \<Longrightarrow> dbConsistent (snd (updateReportStatus now isValid actor rid st cm d))"
  by (auto simp: updateReportStatus_def split: option.splits sum.splits prod.splits
           dest: addTimelineEvent_consistent)

lemma updateReportStatus_result:
  "updateReportStatus now isValid actor rid st cm d = (Inr r', d') \<Longrightarrow> statusMatchesTimeline r'"
  by (auto simp: updateReportStatus_def split: option.splits sum.splits prod.splits if_splits
           dest: addTimelineEvent_result_matches)

lemma assignReport_consistent:
  "dbConsistent d \<Longrightarrow> dbConsistent (snd (assignReport now isValid actor rid eid cm d))"
  by (auto simp: assignReport_def split: option.splits sum.splits prod.splits
           dest: addTimelineEvent_consistent)

lemma assignReport_result:
  "assignReport now isValid actor rid eid cm d = (Inr r', d') \<Longrightarrow> statusMatchesTimeline r'"
  by (auto simp: assignReport_def split: option.splits sum.splits prod.splits if_splits
           dest: addTimelineEvent_result_matches)

lemma addFeedback_consistent:
  "dbConsistent d \<Longrightarrow> dbConsistent (snd (addFeedback now isValid actor rid rating cm d))"
  by (auto simp: addFeedback_def split: option.splits sum.splits prod.splits
           dest: addTimelineEvent_consistent)

lemma addFeedback_result:
  "addFeedback now isValid actor rid rating cm d = (Inr r', d') \<Longrightarrow> statusMatchesTimeline r'"
  by (auto simp: addFeedback_def split: option.splits sum.splits prod.splits if_splits
           dest: addTimelineEvent_result_matches)

lemma bulkStatusLoop_consistent:
  "dbConsistent d \<Longrightarrow> dbConsistent (snd (bulkStatusLoop now st cm uid reps d))"
proof (induction reps arbitrary: d)
  case Nil
  then show ?case by simp
next
  case (Cons rep reps)
  obtain x d' where a: "addTimelineEvent now st (Some cm) uid rep d = (x, d')"
    by (cases "addTimelineEvent now st (Some cm) uid rep d")
  have c: "dbConsistent d'" using addTimelineEvent_consistent [OF Cons.prems a] .
  show ?case using a c Cons.IH by (cases x) simp_all
qed



lemma touchedConsistent_iff:
  "touchedConsistent ids d = (\<forall>r\<in>set (reports d). r_id r \<in> set ids \<longrightarrow> statusMatchesTimeline r)"
  by (auto simp: touchedConsistent_def list_all_iff)

lemma touchedConsistent_createNotification [simp]:
  "touchedConsistent ids (createNotification n d) = touchedConsistent ids d"
  by (simp add: touchedConsistent_def createNotification_def)

lemma addTimelineEvent_touched:
  assumes "touchedConsistent S d" and "addTimelineEvent now st cm uid r d = (Inr r', d')"
  shows "touchedConsistent (r_id r # S) d'"
  using assms
  by (auto simp: touchedConsistent_iff addTimelineEvent_def save_def Let_def pushTimeline_def
                 statusMatchesTimeline_def split: if_splits)


lemma findById_Some_id: "findById i rs = Some r \<Longrightarrow> r_id r = i"
  by (induction rs) (auto split: if_splits)

lemma findById_map_replace:
  "findById i rs = Some r \<Longrightarrow> r_id r' = i \<Longrightarrow>
   findById i (map (\<lambda>x. if r_id x = i then r' else x) rs) = Some r'"
  by (induction rs) (auto split: if_splits)

lemma addTimelineEvent_stored:
  "findById i (reports d) = Some r0 \<Longrightarrow> r_id r = i \<Longrightarrow>
   addTimelineEvent now st cm uid r d = (Inr r', d') \<Longrightarrow> findById i (reports d') = Some r'"
  by (auto simp: addTimelineEvent_def save_def Let_def pushTimeline_def findById_map_replace
           split: if_splits)

lemma bulkStatusLoop_touched:
  "touchedConsistent S d \<Longrightarrow> bulkStatusLoop now st cm uid reps d = (True, d') \<Longrightarrow>
   touchedConsistent (map r_id reps @ S) d'"
proof (induction reps arbitrary: d S)
  case Nil
  then show ?case by simp
next
  case (Cons rep reps)
  obtain x d1 where a: "addTimelineEvent now st (Some cm) uid rep d = (x, d1)"
    by (cases "addTimelineEvent now st (Some cm) uid rep d")
  show ?case
  proof (cases x)
    case (Inl e)
    with a Cons.prems(2) show ?thesis by simp
  next
    case (Inr rep')
    let ?d2 = "if st = ''resolved'' then createNotification (resolvedNotification now rep') d1 else d1"
    have t: "touchedConsistent (r_id rep # S) ?d2"
      using addTimelineEvent_touched [OF Cons.prems(1)] a Inr by simp
    have l: "bulkStatusLoop now st cm uid reps ?d2 = (True, d')"
      using Cons.prems(2) a Inr by simp
    have "touchedConsistent (map r_id reps @ (r_id rep # S)) d'"
      using Cons.IH [OF t l] .
    then show ?thesis by (auto simp: touchedConsistent_iff)
  qed
qed

lemma updateReportStatus_stored:
  "updateReportStatus now isValid actor rid st cm d = (Inr r', d') \<Longrightarrow>
   findById rid (reports d') = Some r'"
  by (auto simp: updateReportStatus_def createNotification_def
           split: option.splits sum.splits prod.splits if_splits
           dest: addTimelineEvent_stored [rotated 2] findById_Some_id)

lemma fieldworkerUpdateStatus_consistent:
  "dbConsistent d \<Longrightarrow> dbConsistent (snd (fieldworkerUpdateStatus now isValid actor rid st cm d))"
  by (auto simp: fieldworkerUpdateStatus_def split: option.splits sum.splits prod.splits
           dest: addTimelineEvent_consistent)

lemma fieldworkerUpdateStatus_result:
  "fieldworkerUpdateStatus now isValid actor rid st cm d = (Inr r', d') \<Longrightarrow> statusMatchesTimeline r'"
  by (auto simp: fieldworkerUpdateStatus_def split: option.splits sum.splits prod.splits if_splits
           dest: addTimelineEvent_result_matches)

lemma bulkAssignLoop_consistent:
  "dbConsistent d \<Longrightarrow> dbConsistent (snd (bulkAssignLoop now a aid uid reps d))"
proof (induction reps arbitrary: d)
  case Nil
  then show ?case by simp
next
  case (Cons rep reps)
  let ?cm = "Some (''Assigned to '' @ firstName a @ '' '' @ lastName a)"
  obtain x d' where e: "addTimelineEvent now ''assigned'' ?cm uid (rep\<lparr>assignedTo := Some aid\<rparr>) d = (x, d')"
    by (cases "addTimelineEvent now ''assigned'' ?cm uid (rep\<lparr>assignedTo := Some aid\<rparr>) d")
  have c: "dbConsistent d'" using addTimelineEvent_consistent [OF Cons.prems e] .
  show ?case using e c Cons.IH by (cases x) simp_all
qed

lemma bulkDeleteLoop_consistent:
  "dbConsistent d \<Longrightarrow> dbConsistent (snd (bulkDeleteLoop now reason uid reps d))"
proof (induction reps arbitrary: d)
  case Nil
  then show ?case by simp
next
  case (Cons rep reps)
  let ?cm = "Some (case reason of None \<Rightarrow> ''Report closed by administrator''
                    | Some c \<Rightarrow> if c = [] then ''Report closed by administrator'' else c)"
  obtain x d' where e: "addTimelineEvent now ''closed'' ?cm uid rep d = (x, d')"
    by (cases "addTimelineEvent now ''closed'' ?cm uid rep d")
  have c: "dbConsistent d'" using addTimelineEvent_consistent [OF Cons.prems e] .
  show ?case using e c Cons.IH by (cases x) simp_all
qed

lemma bulkAssignLoop_touched:
  "touchedConsistent S d \<Longrightarrow> bulkAssignLoop now a aid uid reps d = (True, d') \<Longrightarrow>
   touchedConsistent (map r_id reps @ S) d'"
proof (induction reps arbitrary: d S)
  case Nil
  then show ?case by simp
next
  case (Cons rep reps)
  let ?cm = "Some (''Assigned to '' @ firstName a @ '' '' @ lastName a)"
  obtain x d1 where e: "addTimelineEvent now ''assigned'' ?cm uid (rep\<lparr>assignedTo := Some aid\<rparr>) d = (x, d1)"
    by (cases "addTimelineEvent now ''assigned'' ?cm uid (rep\<lparr>assignedTo := Some aid\<rparr>) d")
  show ?case
  proof (cases x)
    case (Inl err)
    with e Cons.prems(2) show ?thesis by simp
  next
    case (Inr rep')
    let ?d2 = "createNotification (assignmentNotification now aid rep') d1"
    have t: "touchedConsistent (r_id rep # S) ?d2"
      using addTimelineEvent_touched [OF Cons.prems(1)] e Inr by fastforce
    have l: "bulkAssignLoop now a aid uid reps ?d2 = (True, d')"
      using Cons.prems(2) e Inr by simp
    have "touchedConsistent (map r_id reps @ (r_id rep # S)) d'"
      using Cons.IH [OF t l] .
    then show ?thesis by (auto simp: touchedConsistent_iff)
  qed
qed

lemma bulkDeleteLoop_touched:
  "touchedConsistent S d \<Longrightarrow> bulkDeleteLoop now reason uid reps d = (True, d') \<Longrightarrow>
   touchedConsistent (map r_id reps @ S) d'"
proof (induction reps arbitrary: d S)
  case Nil
  then show ?case by simp
next
  case (Cons rep reps)
  let ?cm = "Some (case reason of None \<Rightarrow> ''Report closed by administrator''
                    | Some c \<Rightarrow> if c = [] then ''Report closed by administrator'' else c)"
  obtain x d1 where e: "addTimelineEvent now ''closed'' ?cm uid rep d = (x, d1)"
    by (cases "addTimelineEvent now ''closed'' ?cm uid rep d")
  show ?case
  proof (cases x)
    case (Inl err)
    with e Cons.prems(2) show ?thesis by simp
  next
    case (Inr rep')
    let ?d2 = "createNotification (closedNotification now reason rep') d1"
    have t: "touchedConsistent (r_id rep # S) ?d2"
      using addTimelineEvent_touched [OF Cons.prems(1)] e Inr by fastforce
    have l: "bulkDeleteLoop now reason uid reps ?d2 = (True, d')"
      using Cons.prems(2) e Inr by simp
    have "touchedConsistent (map r_id reps @ (r_id rep # S)) d'"
      using Cons.IH [OF t l] .
    then show ?thesis by (auto simp: touchedConsistent_iff)
  qed
qed

lemma touchedConsistent_Nil [simp]: "touchedConsistent [] d"
  by (simp add: touchedConsistent_def list_all_iff)


lemma bulkUpdateReportStatus_consistent:
  assumes c: "dbConsistent d"
  shows "dbConsistent (snd (bulkUpdateReportStatus now isValid actor ids st cm d))"
proof -
  let ?cm = "case cm of None \<Rightarrow> ''Bulk status update to '' @ st
             | Some c \<Rightarrow> if c = [] then ''Bulk status update to '' @ st else c"
  let ?found = "findByIds (filter isValid ids) (reports d)"
  obtain b d' where l: "bulkStatusLoop now st ?cm (u_id actor) ?found d = (b, d')"
    by (cases "bulkStatusLoop now st ?cm (u_id actor) ?found d")
  have "dbConsistent d'"
    using bulkStatusLoop_consistent [OF c, of now st ?cm "u_id actor" ?found] l by simp
  then show ?thesis
    using c l by (cases b) (simp_all add: bulkUpdateReportStatus_def Let_def)
qed

lemma bulkUpdateReportStatus_touched:
  assumes "bulkUpdateReportStatus now isValid actor ids st cm d = (Inr (n, s, done), d')"
  shows "touchedConsistent done d'"
proof -
  let ?cm = "case cm of None \<Rightarrow> ''Bulk status update to '' @ st
             | Some c \<Rightarrow> if c = [] then ''Bulk status update to '' @ st else c"
  let ?found = "findByIds (filter isValid ids) (reports d)"
  obtain b d1 where l: "bulkStatusLoop now st ?cm (u_id actor) ?found d = (b, d1)"
    by (cases "bulkStatusLoop now st ?cm (u_id actor) ?found d")
  have r: "b \<and> d1 = d' \<and> done = map r_id ?found"
    using assms l by (cases b) (simp_all add: bulkUpdateReportStatus_def Let_def split: if_splits)
  have "touchedConsistent (map r_id ?found @ []) d1"
    using bulkStatusLoop_touched [of "[]" d now st ?cm "u_id actor" ?found d1] l r by simp
  then show ?thesis using r by simp
qed

lemma bulkAssignReports_consistent:
  assumes c: "dbConsistent d"
  shows "dbConsistent (snd (bulkAssignReports now isValid actor ids aid d))"
proof (cases "findUserById aid (users d)")
  case None
  then show ?thesis using c by (simp add: bulkAssignReports_def)
next
  case (Some a)
  let ?found = "findByIds (filter isValid ids) (reports d)"
  obtain b d' where l: "bulkAssignLoop now a aid (u_id actor) ?found d = (b, d')"
    by (cases "bulkAssignLoop now a aid (u_id actor) ?found d")
  have "dbConsistent d'"
    using bulkAssignLoop_consistent [OF c, of now a aid "u_id actor" ?found] l by simp
  then show ?thesis
    using c l Some by (cases b) (simp_all add: bulkAssignReports_def Let_def)
qed

lemma bulkAssignReports_touched:
  assumes "bulkAssignReports now isValid actor ids aid d = (Inr (n, x, done), d')"
  shows "touchedConsistent done d'"
proof (cases "findUserById aid (users d)")
  case None
  then show ?thesis using assms by (simp add: bulkAssignReports_def split: if_splits)
next
  case (Some a)
  let ?found = "findByIds (filter isValid ids) (reports d)"
  obtain b d1 where l: "bulkAssignLoop now a aid (u_id actor) ?found d = (b, d1)"
    by (cases "bulkAssignLoop now a aid (u_id actor) ?found d")
  have r: "b \<and> d1 = d' \<and> done = map r_id ?found"
    using assms l Some
    by (cases b) (simp_all add: bulkAssignReports_def Let_def split: if_splits)
  have "touchedConsistent (map r_id ?found @ []) d1"
    using bulkAssignLoop_touched [of "[]" d now a aid "u_id actor" ?found d1] l r by simp
  then show ?thesis using r by simp
qed

lemma bulkDeleteReports_consistent:
  assumes c: "dbConsistent d"
  shows "dbConsistent (snd (bulkDeleteReports now isValid actor ids reason d))"
proof -
  let ?found = "findByIds (filter isValid ids) (reports d)"
  obtain b d' where l: "bulkDeleteLoop now reason (u_id actor) ?found d = (b, d')"
    by (cases "bulkDeleteLoop now reason (u_id actor) ?found d")
  have "dbConsistent d'"
    using bulkDeleteLoop_consistent [OF c, of now reason "u_id actor" ?found] l by simp
  then show ?thesis
    using c l by (cases b) (simp_all add: bulkDeleteReports_def Let_def)
qed

lemma bulkDeleteReports_touched:
  assumes "bulkDeleteReports now isValid actor ids reason d = (Inr (n, done), d')"
  shows "touchedConsistent done d'"
proof -
  let ?found = "findByIds (filter isValid ids) (reports d)"
  obtain b d1 where l: "bulkDeleteLoop now reason (u_id actor) ?found d = (b, d1)"
    by (cases "bulkDeleteLoop now reason (u_id actor) ?found d")
  have r: "b \<and> d1 = d' \<and> done = map r_id ?found"
    using assms l by (cases b) (simp_all add: bulkDeleteReports_def Let_def split: if_splits)
  have "touchedConsistent (map r_id ?found @ []) d1"
    using bulkDeleteLoop_touched [of "[]" d now reason "u_id actor" ?found d1] l r by simp
  then show ?thesis using r by simp
qed

lemma addTimelineEvent_transitionOk:
  assumes f: "findById rid (reports d) = Some r0" and i: "r_id r = rid"
    and a: "addTimelineEvent now st cm uid r d = (Inr r', d')"
  shows "statusMatchesTimeline r' \<and> findById rid (reports (createNotification n d')) = Some r'
         \<and> findById rid (reports d') = Some r'"
  using addTimelineEvent_result_matches [OF a] addTimelineEvent_stored [OF f i a]
  by (simp add: createNotification_def)

lemma transitionOk_Inl [simp]: "transitionOk rid (Inl e, d)"
  by (simp add: transitionOk_def)

lemma transitionOk_addTimelineEvent:
  assumes f: "findById rid (reports d) = Some r0" and i: "r_id r = rid"
    and g: "\<And>r' d'. reports (g r' d') = reports d'"
  shows "transitionOk rid
           (case addTimelineEvent now st cm uid r d of
              (Inl e, d') \<Rightarrow> (Inl e, d')
            | (Inr r', d') \<Rightarrow> (Inr r', g r' d'))"
proof -
  obtain x d1 where a: "addTimelineEvent now st cm uid r d = (x, d1)"
    by (cases "addTimelineEvent now st cm uid r d")
  show ?thesis
  proof (cases x)
    case (Inl e)
    then show ?thesis using a by simp
  next
    case (Inr r')
    then show ?thesis
      using a addTimelineEvent_result_matches [of now st cm uid r d r' d1]
        addTimelineEvent_stored [OF f i, of now st cm uid r' d1] g
      by (simp add: transitionOk_def)
  qed
qed

lemma reports_createNotification [simp]: "reports (createNotification n d) = reports d"
  by (simp add: createNotification_def)

lemma updateReportStatus_transitionOk:
  "transitionOk rid (updateReportStatus now isValid actor rid st cm d)"
proof (cases "findById rid (reports d)")
  case None
  then show ?thesis by (simp add: updateReportStatus_def)
next
  case (Some rep)
  show ?thesis
    unfolding updateReportStatus_def
    using transitionOk_addTimelineEvent [OF Some findById_Some_id [OF Some]]
    by (simp add: Some)
qed

lemma fieldworkerUpdateStatus_transitionOk:
  "transitionOk rid (fieldworkerUpdateStatus now isValid actor rid st cm d)"
proof (cases "findById rid (reports d)")
  case None
  then show ?thesis by (simp add: fieldworkerUpdateStatus_def)
next
  case (Some rep)
  show ?thesis
    unfolding fieldworkerUpdateStatus_def
    using transitionOk_addTimelineEvent [OF Some findById_Some_id [OF Some]]
    by (simp add: Some del: set_simps)
qed

lemma assignReport_transitionOk:
  "transitionOk rid (assignReport now isValid actor rid eid cm d)"
proof (cases "findUserById eid (users d)")
  case None
  then show ?thesis by (simp add: assignReport_def)
next
  case (Some employee)
  note emp = Some
  show ?thesis
  proof (cases "findById rid (reports d)")
    case None
    then show ?thesis using emp by (simp add: assignReport_def)
  next
    case (Some rep)
    have i: "r_id (rep\<lparr>assignedTo := Some eid, status := ''assigned''\<rparr>) = rid"
      using findById_Some_id [OF Some] by simp
    show ?thesis
      unfolding assignReport_def
      using transitionOk_addTimelineEvent [OF Some i]
      by (simp add: Some emp)
  qed
qed

lemma addFeedback_transitionOk:
  "transitionOk rid (addFeedback now isValid actor rid rating cm d)"
proof (cases "findById rid (reports d)")
  case None
  then show ?thesis by (simp add: addFeedback_def)
next
  case (Some rep)
  have i: "r_id (rep\<lparr>feedback := Some \<lparr>fb_rating = rating, fb_comment = cm, fb_submittedAt = now\<rparr>\<rparr>) = rid"
    using findById_Some_id [OF Some] by simp
  let ?g = "\<lambda>r' d'. case assignedTo r' of None \<Rightarrow> d'
             | Some a \<Rightarrow> createNotification
                  (newNotification now a ''feedback'' ''Feedback Received''
                     (''Feedback received for report: '' @ title r')
                     (Some (''Report'', r_id r')) None) d'"
  have g: "\<And>r' d'. reports (?g r' d') = reports d'"
    by (simp split: option.splits)
  show ?thesis
    unfolding addFeedback_def
    using transitionOk_addTimelineEvent [of rid d rep _ ?g, OF Some i g]
    by (simp add: Some)
qed

text \<open>
  C1. Every status-transition operation (single status update through either route,
  assignment, feedback closing, and the three bulk operations) keeps the property that
  the status of each stored report equals the status of the last entry of its timeline.
  Moreover, whatever the store held before, the report a single transition answers with
  is the stored one and has the property, and after a bulk operation that succeeds every
  report it lists has it.
\<close>

theorem status_equals_last_timeline_entry:
  assumes "dbConsistent d"
  shows "(dbConsistent (snd (updateReportStatus now isValid actor rid st cm d))
          \<and> transitionOk rid (updateReportStatus now isValid actor rid st cm d))
       \<and> (dbConsistent (snd (fieldworkerUpdateStatus now isValid actor rid st cm d))
          \<and> transitionOk rid (fieldworkerUpdateStatus now isValid actor rid st cm d))
       \<and> (dbConsistent (snd (assignReport now isValid actor rid eid cm d))
          \<and> transitionOk rid (assignReport now isValid actor rid eid cm d))
       \<and> (dbConsistent (snd (addFeedback now isValid actor rid rating cm d))
          \<and> transitionOk rid (addFeedback now isValid actor rid rating cm d))
       \<and> (dbConsistent (snd (bulkUpdateReportStatus now isValid actor ids st cm d))
          \<and> (case bulkUpdateReportStatus now isValid actor ids st cm d of
                (Inr (n, s, done), d') \<Rightarrow> touchedConsistent done d'
              | (Inl e, d') \<Rightarrow> True))
       \<and> (dbConsistent (snd (bulkAssignReports now isValid actor ids eid d))
          \<and> (case bulkAssignReports now isValid actor ids eid d of
                (Inr (n, a, done), d') \<Rightarrow> touchedConsistent done d'
              | (Inl e, d') \<Rightarrow> True))
       \<and> (dbConsistent (snd (bulkDeleteReports now isValid actor ids cm d))
          \<and> (case bulkDeleteReports now isValid actor ids cm d of
                (Inr (n, done), d') \<Rightarrow> touchedConsistent done d'
              | (Inl e, d') \<Rightarrow> True))"
proof -
  have b1: "case bulkUpdateReportStatus now isValid actor ids st cm d of
              (Inr (n, s, done), d') \<Rightarrow> touchedConsistent done d'
            | (Inl e, d') \<Rightarrow> True"
    using bulkUpdateReportStatus_touched [of now isValid actor ids st cm d]
    by (auto split: prod.splits sum.splits)
  have b2: "case bulkAssignReports now isValid actor ids eid d of
              (Inr (n, a, done), d') \<Rightarrow> touchedConsistent done d'
            | (Inl e, d') \<Rightarrow> True"
    using bulkAssignReports_touched [of now isValid actor ids eid d]
    by (auto split: prod.splits sum.splits)
  have b3: "case bulkDeleteReports now isValid actor ids cm d of
              (Inr (n, done), d') \<Rightarrow> touchedConsistent done d'
            | (Inl e, d') \<Rightarrow> True"
    using bulkDeleteReports_touched [of now isValid actor ids cm d]
    by (auto split: prod.splits sum.splits)
  show ?thesis
    using assms b1 b2 b3
    by (simp only: updateReportStatus_consistent updateReportStatus_transitionOk
          fieldworkerUpdateStatus_consistent fieldworkerUpdateStatus_transitionOk
          assignReport_consistent assignReport_transitionOk
          addFeedback_consistent addFeedback_transitionOk
          bulkUpdateReportStatus_consistent bulkAssignReports_consistent
          bulkDeleteReports_consistent simp_thms)
qed

theorem status_equals_last_timeline_entry_witness:
  "dbConsistent exDb
   \<and> dbConsistent (snd (updateReportStatus 5 exValid exAdmin ''r1'' ''resolved'' None exDb))
   \<and> transitionOk ''r1'' (updateReportStatus 5 exValid exAdmin ''r1'' ''resolved'' None exDb)
   \<and> map status (reports (snd (updateReportStatus 5 exValid exAdmin ''r1'' ''resolved'' None exDb)))
       = [''resolved'']"
proof -
  have h: "dbConsistent exDb"
    by (simp add: dbConsistent_def exDb_def exReport_def statusMatchesTimeline_def)
  have e: "map status (reports (snd (updateReportStatus 5 exValid exAdmin ''r1'' ''resolved'' None exDb)))
       = [''resolved'']"
    by (simp add: exDb_def exReport_def exAdmin_def updateReportStatus_def
          addTimelineEvent_def save_def pushTimeline_def validReport_def validFeedback_def
          statusEnum_def createNotification_def Let_def)
  show ?thesis
    using h e status_equals_last_timeline_entry [OF h, of 5 exValid exAdmin "''r1''" "''resolved''" None]
    by blast
qed

section \<open>Employee status updates\<close>

lemmas ex_defs = exDb_def exReport_def exAdmin_def exEmployee_def exCitizen_def

lemmas op_defs = addTimelineEvent_def save_def pushTimeline_def validReport_def validFeedback_def
          statusEnum_def createNotification_def newNotification_def Let_def dquote_def

lemma save_rejected_unchanged: "save now r d = (Inl e, d') \<Longrightarrow> d' = d"
  by (simp add: save_def Let_def split: if_splits)

lemma addTimelineEvent_rejected_unchanged:
  "addTimelineEvent now st cm uid r d = (Inl e, d') \<Longrightarrow> d' = d"
  by (simp add: addTimelineEvent_def save_rejected_unchanged)

lemma updateReportStatus_rejected_unchanged:
  "updateReportStatus now isValid actor rid st cm d = (Inl e, d') \<Longrightarrow> d' = d"
  by (auto simp: updateReportStatus_def split: option.splits if_splits prod.splits sum.splits
           dest: addTimelineEvent_rejected_unchanged)

lemma fieldworkerUpdateStatus_rejected_unchanged:
  "fieldworkerUpdateStatus now isValid actor rid st cm d = (Inl e, d') \<Longrightarrow> d' = d"
  by (auto simp: fieldworkerUpdateStatus_def split: option.splits if_splits prod.splits sum.splits
           dest: addTimelineEvent_rejected_unchanged)

lemma employee_other_assignee_rejected:
  assumes "role actor = ''employee''" and "findById rid (reports d) = Some rep"
    and "assignedTo rep = Some other" and "other \<noteq> u_id actor" and "isValid rid"
  shows "updateReportStatus now isValid actor rid st cm d
           = (Inl (ApiError ''You do not have permission to update this report'' 403), d)"
  using assms by (simp add: updateReportStatus_def)

lemma employee_target_restricted:
  assumes "role actor = ''employee''" and "st \<noteq> ''in_progress''" and "st \<noteq> ''resolved''"
  shows "\<exists>e. updateReportStatus now isValid actor rid st cm d = (Inl e, d)"
  using assms by (simp add: updateReportStatus_def split: option.splits)

lemma fieldworker_requires_assignment:
  assumes "findById rid (reports d) = Some rep" and "assignedTo rep \<noteq> Some (u_id actor)"
  shows "\<exists>e. fieldworkerUpdateStatus now isValid actor rid st cm d = (Inl e, d)"
  using assms by (auto simp: fieldworkerUpdateStatus_def)

text \<open>
  C2. An employee is refused on a report assigned to someone else, may only set
  \<open>in_progress\<close> or \<open>resolved\<close>, and a refusal leaves the database as it was (the three
  lemmas above). But \<open>updateReportStatus\<close> lets an employee change an unassigned report:
  on the example, the employee \<open>e1\<close> moves the unassigned, submitted report \<open>r1\<close> to
  \<open>in_progress\<close> and the timeline grows, while the field worker route refuses the same
  request.
\<close>

theorem employee_updates_unassigned_report:
  "role exEmployee = ''employee'' \<and> assignedTo exReport = None \<and> status exReport = ''submitted''
   \<and> \<not> isl (fst (updateReportStatus 5 exValid exEmployee ''r1'' ''in_progress'' None exDb))
   \<and> map (map te_status \<circ> timeline)
         (reports (snd (updateReportStatus 5 exValid exEmployee ''r1'' ''in_progress'' None exDb)))
       = [[''submitted'', ''in_progress'']]
   \<and> fieldworkerUpdateStatus 5 exValid exEmployee ''r1'' ''in_progress'' None exDb
       = (Inl (ApiError ''You can only update status of reports assigned to you'' 403), exDb)"
  by (simp add: ex_defs op_defs updateReportStatus_def fieldworkerUpdateStatus_def)

theorem employee_updates_unassigned_report_witness:
  "\<not> isl (fst (updateReportStatus 5 exValid exEmployee ''r1'' ''in_progress'' None exDb))"
  using employee_updates_unassigned_report by blast

section \<open>Feedback\<close>

text \<open>
  C3, as stated, fails: feedback is given on the resolved report \<open>r1\<close>, which closes it;
  an administrator sets the report back to \<open>resolved\<close>; the submitter gives feedback
  again, and the handler accepts it and replaces the stored feedback.
\<close>

theorem second_feedback_overwrites:
  "map feedback (reports (snd (addFeedback 200000000 exValid exCitizen ''r1'' (Some 5) (Some ''great'') exDbResolved)))
     = [Some \<lparr>fb_rating = Some 5, fb_comment = Some ''great'', fb_submittedAt = 200000000\<rparr>]
   \<and> \<not> isl (fst feedbackTrace)
   \<and> map feedback (reports (snd feedbackTrace))
       = [Some \<lparr>fb_rating = Some 1, fb_comment = Some ''bad'', fb_submittedAt = 200000002\<rparr>]"
  by (simp add: feedbackTrace_def exDbResolved_def exResolved_def ex_defs op_defs addFeedback_def updateReportStatus_def)

lemma addTimelineEvent_Inr:
  "addTimelineEvent now st cm uid r d = (Inr r', d') \<Longrightarrow>
   r' = (pushTimeline now st cm uid r)\<lparr>updatedAt := now\<rparr>"
  by (auto simp: addTimelineEvent_def save_def Let_def split: if_splits)

lemma addFeedback_success:
  assumes f: "findById rid (reports d) = Some rep"
    and s: "addFeedback now isValid actor rid rating cm d = (Inr r', d')"
  shows "submittedBy rep = u_id actor \<and> status rep = ''resolved'' \<and> isValid rid
         \<and> r' = (pushTimeline now ''closed'' (Some ''Feedback provided and report closed'') (u_id actor)
                  (rep\<lparr>feedback := Some \<lparr>fb_rating = rating, fb_comment = cm, fb_submittedAt = now\<rparr>\<rparr>))\<lparr>updatedAt := now\<rparr>
         \<and> findById rid (reports d') = Some r'"
proof -
  let ?rep = "rep\<lparr>feedback := Some \<lparr>fb_rating = rating, fb_comment = cm, fb_submittedAt = now\<rparr>\<rparr>"
  let ?cm = "Some ''Feedback provided and report closed''"
  have v: "isValid rid"
    using s by (cases "isValid rid") (simp_all add: addFeedback_def)
  have sb: "submittedBy rep = u_id actor"
    using s f v by (cases "submittedBy rep = u_id actor") (simp_all add: addFeedback_def)
  have st: "status rep = ''resolved''"
    using s f v sb by (cases "status rep = ''resolved''") (simp_all add: addFeedback_def)
  obtain x d1 where a: "addTimelineEvent now ''closed'' ?cm (u_id actor) ?rep d = (x, d1)"
    by (cases "addTimelineEvent now ''closed'' ?cm (u_id actor) ?rep d")
  have s': "(case x of Inl e \<Rightarrow> (Inl e, d1)
             | Inr rep' \<Rightarrow> (Inr rep',
                 (case assignedTo rep' of None \<Rightarrow> d1
                  | Some a \<Rightarrow> createNotification
                      (newNotification now a ''feedback'' ''Feedback Received''
                         (''Feedback received for report: '' @ title rep')
                         (Some (''Report'', r_id rep')) None) d1))) = (Inr r', d')"
    using s f v sb st a by (simp add: addFeedback_def)
  have x: "x = Inr r'"
    using s' by (cases x) simp_all
  have d: "reports d' = reports d1"
    using s' x by (cases "assignedTo r'") (auto simp: createNotification_def)
  have i: "r_id ?rep = rid" using findById_Some_id [OF f] by simp
  have k: "findById rid (reports d1) = Some r'"
    using addTimelineEvent_stored [OF f i] a x by simp
  have e: "r' = (pushTimeline now ''closed'' ?cm (u_id actor) ?rep)\<lparr>updatedAt := now\<rparr>"
    using addTimelineEvent_Inr [of now "''closed''" ?cm "u_id actor" ?rep d r' d1] a x by simp
  show ?thesis
    using v sb st e k d by simp
qed

text \<open>
  C3, amended. For a stored report: anyone but the submitter is refused with 403; the
  submitter is refused with 400 unless the status is exactly \<open>resolved\<close>; an accepted
  submission stores the feedback and closes the report, so that a further submission
  made on the resulting database is refused with 400 and changes nothing.
\<close>

theorem feedback_only_by_submitter_while_resolved:
  assumes f: "findById rid (reports d) = Some rep" and v: "isValid rid"
  shows "(submittedBy rep \<noteq> u_id actor \<longrightarrow>
            addFeedback now isValid actor rid rating cm d
              = (Inl (ApiError ''You can only provide feedback for your own reports'' 403), d))
       \<and> (submittedBy rep = u_id actor \<and> status rep \<noteq> ''resolved'' \<longrightarrow>
            addFeedback now isValid actor rid rating cm d
              = (Inl (ApiError ''You can only provide feedback for resolved reports'' 400), d))
       \<and> (\<forall>r' d'. addFeedback now isValid actor rid rating cm d = (Inr r', d') \<longrightarrow>
            submittedBy rep = u_id actor \<and> status rep = ''resolved''
            \<and> status r' = ''closed''
            \<and> feedback r' = Some \<lparr>fb_rating = rating, fb_comment = cm, fb_submittedAt = now\<rparr>
            \<and> findById rid (reports d') = Some r'
            \<and> addFeedback now2 isValid actor rid rating2 cm2 d'
                = (Inl (ApiError ''You can only provide feedback for resolved reports'' 400), d'))"
proof (intro conjI allI impI)
  assume "submittedBy rep \<noteq> u_id actor"
  then show "addFeedback now isValid actor rid rating cm d
              = (Inl (ApiError ''You can only provide feedback for your own reports'' 403), d)"
    using f v by (simp add: addFeedback_def)
next
  assume "submittedBy rep = u_id actor \<and> status rep \<noteq> ''resolved''"
  then show "addFeedback now isValid actor rid rating cm d
              = (Inl (ApiError ''You can only provide feedback for resolved reports'' 400), d)"
    using f v by (simp add: addFeedback_def)
next
  fix r' d'
  assume s: "addFeedback now isValid actor rid rating cm d = (Inr r', d')"
  note k = addFeedback_success [OF f s]
  show "submittedBy rep = u_id actor" using k by simp
  show "status rep = ''resolved''" using k by simp
  show c: "status r' = ''closed''" using k by (simp add: pushTimeline_def)
  show "feedback r' = Some \<lparr>fb_rating = rating, fb_comment = cm, fb_submittedAt = now\<rparr>"
    using k by (simp add: pushTimeline_def)
  show st: "findById rid (reports d') = Some r'" using k by simp
  have "submittedBy r' = u_id actor" using k by (simp add: pushTimeline_def)
  then show "addFeedback now2 isValid actor rid rating2 cm2 d'
                = (Inl (ApiError ''You can only provide feedback for resolved reports'' 400), d')"
    using st c v by (simp add: addFeedback_def)
qed

theorem feedback_only_by_submitter_while_resolved_witness:
  "findById ''r1'' (reports exDbResolved) = Some exResolved
   \<and> \<not> isl (fst (addFeedback 200000000 exValid exCitizen ''r1'' (Some 5) (Some ''great'') exDbResolved))
   \<and> addFeedback 200000001 exValid exCitizen ''r1'' (Some 1) (Some ''bad'')
        (snd (addFeedback 200000000 exValid exCitizen ''r1'' (Some 5) (Some ''great'') exDbResolved))
      = (Inl (ApiError ''You can only provide feedback for resolved reports'' 400),
         snd (addFeedback 200000000 exValid exCitizen ''r1'' (Some 5) (Some ''great'') exDbResolved))"
proof -
  have f: "findById ''r1'' (reports exDbResolved) = Some exResolved"
    by (simp add: exDbResolved_def exResolved_def exReport_def)
  have v: "exValid ''r1''" by simp
  have "\<exists>r1 d1. addFeedback 200000000 exValid exCitizen ''r1'' (Some 5) (Some ''great'') exDbResolved = (Inr r1, d1)"
    by (simp add: exDbResolved_def exResolved_def ex_defs op_defs addFeedback_def)
  then obtain r1 d1 where a: "addFeedback 200000000 exValid exCitizen ''r1'' (Some 5) (Some ''great'') exDbResolved = (Inr r1, d1)"
    by blast
  note T = feedback_only_by_submitter_while_resolved [where isValid = exValid
        and rid = "''r1''" and d = exDbResolved and rep = exResolved
        and actor = exCitizen and now = 200000000 and rating = "Some 5" and cm = "Some ''great''"
        and ?now2.0 = 200000001 and ?rating2.0 = "Some 1" and ?cm2.0 = "Some ''bad''", OF f v]
  have "addFeedback 200000001 exValid exCitizen ''r1'' (Some 1) (Some ''bad'') d1
            = (Inl (ApiError ''You can only provide feedback for resolved reports'' 400), d1)"
    using T a by blast
  then show ?thesis using f by (simp add: a)
qed

section \<open>Reading notifications\<close>

text \<open>
  C9, amended. After \<open>markAsRead\<close> the notification is read and \<open>readAt\<close> is the time
  of that call; no field other than \<open>isRead\<close>, \<open>readAt\<close> and \<open>updatedAt\<close> changes; a
  second call at a later time keeps \<open>isRead\<close> and overwrites \<open>readAt\<close> and \<open>updatedAt\<close>
  with the later time, and only a call at the same time changes nothing.
\<close>

theorem markAsRead_restamps_readAt:
  "isRead (markAsRead t n) \<and> readAt (markAsRead t n) = Some t
   \<and> (markAsRead t n)\<lparr>isRead := isRead n, readAt := readAt n, n_updatedAt := n_updatedAt n\<rparr> = n
   \<and> markAsRead t2 (markAsRead t1 n)
       = (if t2 = t1 then markAsRead t1 n
          else (markAsRead t1 n)\<lparr>readAt := Some t2, n_updatedAt := t2\<rparr>)"
  by (cases n) (auto simp: markAsRead_def Let_def)

text \<open>
  C9, as stated, fails: marking a notification read at time 20 and again at time 30
  moves \<open>readAt\<close> from 20 to 30.
\<close>

theorem second_markAsRead_changes_readAt:
  "isRead (markAsRead 20 exNotification)
   \<and> readAt (markAsRead 20 exNotification) = Some 20
   \<and> readAt (markAsRead 30 (markAsRead 20 exNotification)) = Some 30
   \<and> markAsRead 30 (markAsRead 20 exNotification) \<noteq> markAsRead 20 exNotification"
  by (simp add: markAsRead_def exNotification_def newNotification_def Let_def)

theorem markAsRead_restamps_readAt_witness:
  "markAsRead 30 (markAsRead 20 exNotification)
     = (markAsRead 20 exNotification)\<lparr>readAt := Some 30, n_updatedAt := 30\<rparr>"
  using markAsRead_restamps_readAt [of 20 exNotification 30] by simp

section \<open>Registration\<close>

text \<open>
  C10. A registration that succeeds creates the user with role \<open>employee\<close> exactly when
  the requested role is \<open>employee\<close>, and with role \<open>user\<close> otherwise; a registration that
  fails changes nothing; any request that does not ask for \<open>employee\<close> is treated as the
  same request asking for \<open>user\<close>; in particular a request for \<open>admin\<close> with an unused
  email and a document the schema accepts succeeds and creates a \<open>user\<close>.
\<close>

theorem register_role_employee_or_user:
  "(case register sch newId body d of
      (Inr u, d') \<Rightarrow>
        role u = (if b_role body = Some ''employee'' then ''employee'' else ''user'')
        \<and> users d' = users d @ [u]
    | (Inl e, d') \<Rightarrow> d' = d)
   \<and> (b_role body \<noteq> Some ''employee'' \<longrightarrow>
        register sch newId body d = register sch newId (body\<lparr>b_role := Some ''user''\<rparr>) d)
   \<and> (\<not> list_ex (\<lambda>u. Some (email u) = b_email body) (users d)
        \<and> validUser sch (userDocument sch newId (body\<lparr>b_role := Some ''user''\<rparr>)) \<longrightarrow>
        register sch newId (body\<lparr>b_role := Some ''admin''\<rparr>) d
          = (Inr (userDocument sch newId (body\<lparr>b_role := Some ''user''\<rparr>)),
             d\<lparr>users := users d @ [userDocument sch newId (body\<lparr>b_role := Some ''user''\<rparr>)]\<rparr>)
        \<and> role (userDocument sch newId (body\<lparr>b_role := Some ''user''\<rparr>)) = ''user'')"
  by (simp add: register_def userDocument_def Let_def)

theorem register_role_employee_or_user_witness:
  "b_role exBody = Some ''admin''
   \<and> (case register exSchema ''u9'' exBody exDb of
        (Inr u, d') \<Rightarrow> role u = ''user'' \<and> map role (users d') = [''admin'', ''user'']
      | (Inl e, d') \<Rightarrow> False)"
  using register_role_employee_or_user [where sch = exSchema and newId = "''u9''" and body = exBody and d = exDb]
  by (simp add: register_def userDocument_def exSchema_def exBody_def exDb_def exAdmin_def orEmpty_def Let_def)

section \<open>Notifications of the bulk operations\<close>

lemma addTimelineEvent_notifications:
  "addTimelineEvent now st cm uid r d = (x, d') \<Longrightarrow> notifications d' = notifications d"
  by (auto simp: addTimelineEvent_def save_def Let_def split: if_splits)

lemma addTimelineEvent_Inr_fields:
  "addTimelineEvent now st cm uid r d = (Inr r', d') \<Longrightarrow>
   r_id r' = r_id r \<and> title r' = title r \<and> submittedBy r' = submittedBy r"
  using addTimelineEvent_Inr [of now st cm uid r d r' d'] by (simp add: pushTimeline_def)

lemma resolvedNotification_cong:
  "r_id a = r_id b \<Longrightarrow> title a = title b \<Longrightarrow> submittedBy a = submittedBy b \<Longrightarrow>
   resolvedNotification now a = resolvedNotification now b"
  by (simp add: resolvedNotification_def)

lemma closedNotification_cong:
  "r_id a = r_id b \<Longrightarrow> title a = title b \<Longrightarrow> submittedBy a = submittedBy b \<Longrightarrow>
   closedNotification now reason a = closedNotification now reason b"
  by (simp add: closedNotification_def)

lemma assignmentNotification_cong:
  "r_id a = r_id b \<Longrightarrow> title a = title b \<Longrightarrow>
   assignmentNotification now aid a = assignmentNotification now aid b"
  by (simp add: assignmentNotification_def)

lemma bulkStatusLoop_notifications:
  "bulkStatusLoop now st cm uid reps d = (True, d') \<Longrightarrow>
   notifications d' = notifications d
      @ (if st = ''resolved'' then map (resolvedNotification now) reps else [])"
proof (induction reps arbitrary: d)
  case Nil
  then show ?case by simp
next
  case (Cons rep reps)
  obtain x d1 where a: "addTimelineEvent now st (Some cm) uid rep d = (x, d1)"
    by (cases "addTimelineEvent now st (Some cm) uid rep d")
  show ?case
  proof (cases x)
    case (Inl e)
    with a Cons.prems show ?thesis by simp
  next
    case (Inr rep')
    let ?d2 = "if st = ''resolved'' then createNotification (resolvedNotification now rep') d1 else d1"
    have l: "bulkStatusLoop now st cm uid reps ?d2 = (True, d')"
      using Cons.prems a Inr by simp
    have n1: "notifications d1 = notifications d"
      using addTimelineEvent_notifications [OF a] .
    have c: "resolvedNotification now rep' = resolvedNotification now rep"
      using addTimelineEvent_Inr_fields [of now st "Some cm" uid rep d rep' d1] a Inr
      by (intro resolvedNotification_cong) simp_all
    have n2: "notifications ?d2 = notifications d
                @ (if st = ''resolved'' then [resolvedNotification now rep] else [])"
      using n1 c by (simp add: createNotification_def)
    show ?thesis
      using Cons.IH [OF l] n2 by simp
  qed
qed

lemma bulkDeleteLoop_notifications:
  "bulkDeleteLoop now reason uid reps d = (True, d') \<Longrightarrow>
   notifications d' = notifications d @ map (closedNotification now reason) reps"
proof (induction reps arbitrary: d)
  case Nil
  then show ?case by simp
next
  case (Cons rep reps)
  let ?cm = "Some (case reason of None \<Rightarrow> ''Report closed by administrator''
                    | Some c \<Rightarrow> if c = [] then ''Report closed by administrator'' else c)"
  obtain x d1 where a: "addTimelineEvent now ''closed'' ?cm uid rep d = (x, d1)"
    by (cases "addTimelineEvent now ''closed'' ?cm uid rep d")
  show ?case
  proof (cases x)
    case (Inl e)
    with a Cons.prems show ?thesis by simp
  next
    case (Inr rep')
    let ?d2 = "createNotification (closedNotification now reason rep') d1"
    have l: "bulkDeleteLoop now reason uid reps ?d2 = (True, d')"
      using Cons.prems a Inr by simp
    have n1: "notifications d1 = notifications d"
      using addTimelineEvent_notifications [OF a] .
    have c: "closedNotification now reason rep' = closedNotification now reason rep"
      using addTimelineEvent_Inr_fields [of now "''closed''" ?cm uid rep d rep' d1] a Inr
      by (intro closedNotification_cong) simp_all
    have n2: "notifications ?d2 = notifications d @ [closedNotification now reason rep]"
      using n1 c by (simp add: createNotification_def)
    show ?thesis
      using Cons.IH [OF l] n2 by simp
  qed
qed

lemma bulkAssignLoop_notifications:
  "bulkAssignLoop now a aid uid reps d = (True, d') \<Longrightarrow>
   notifications d' = notifications d @ map (assignmentNotification now aid) reps"
proof (induction reps arbitrary: d)
  case Nil
  then show ?case by simp
next
  case (Cons rep reps)
  let ?cm = "Some (''Assigned to '' @ firstName a @ '' '' @ lastName a)"
  let ?rep = "rep\<lparr>assignedTo := Some aid\<rparr>"
  obtain x d1 where e: "addTimelineEvent now ''assigned'' ?cm uid ?rep d = (x, d1)"
    by (cases "addTimelineEvent now ''assigned'' ?cm uid ?rep d")
  show ?case
  proof (cases x)
    case (Inl err)
    with e Cons.prems show ?thesis by simp
  next
    case (Inr rep')
    let ?d2 = "createNotification (assignmentNotification now aid rep') d1"
    have l: "bulkAssignLoop now a aid uid reps ?d2 = (True, d')"
      using Cons.prems e Inr by simp
    have n1: "notifications d1 = notifications d"
      using addTimelineEvent_notifications [OF e] .
    have c: "assignmentNotification now aid rep' = assignmentNotification now aid rep"
      using addTimelineEvent_Inr_fields [of now "''assigned''" ?cm uid ?rep d rep' d1] e Inr
      by (intro assignmentNotification_cong) simp_all
    have n2: "notifications ?d2 = notifications d @ [assignmentNotification now aid rep]"
      using n1 c by (simp add: createNotification_def)
    show ?thesis
      using Cons.IH [OF l] n2 by simp
  qed
qed

lemma filter_all_length: "length (filter P xs) = length xs \<Longrightarrow> filter P xs = xs"
proof -
  assume l: "length (filter P xs) = length xs"
  have "\<forall>x\<in>set xs. P x"
  proof (rule ccontr)
    assume "\<not> (\<forall>x\<in>set xs. P x)"
    then obtain x where "x \<in> set xs" and "\<not> P x" by blast
    then have "length (filter P xs) < length xs" by (rule length_filter_less)
    with l show False by simp
  qed
  then show ?thesis by simp
qed

lemma bulkUpdateReportStatus_notifications:
  assumes "bulkUpdateReportStatus now isValid actor ids st cm d = (Inr res, d')"
  shows "notifications d' = notifications d
           @ (if st = ''resolved''
              then map (resolvedNotification now) (findByIds ids (reports d)) else [])"
proof -
  let ?cm = "case cm of None \<Rightarrow> ''Bulk status update to '' @ st
             | Some c \<Rightarrow> if c = [] then ''Bulk status update to '' @ st else c"
  have v: "filter isValid ids = ids"
    using assms by (intro filter_all_length) (simp add: bulkUpdateReportStatus_def split: if_splits)
  let ?found = "findByIds ids (reports d)"
  obtain b d1 where l: "bulkStatusLoop now st ?cm (u_id actor) ?found d = (b, d1)"
    by (cases "bulkStatusLoop now st ?cm (u_id actor) ?found d")
  have r: "b \<and> d1 = d'"
    using assms l v by (cases b) (simp_all add: bulkUpdateReportStatus_def Let_def split: if_splits)
  show ?thesis
    using bulkStatusLoop_notifications [of now st ?cm "u_id actor" ?found d d1] l r by simp
qed

lemma bulkDeleteReports_notifications:
  assumes "bulkDeleteReports now isValid actor ids reason d = (Inr res, d')"
  shows "notifications d' = notifications d
           @ map (closedNotification now reason) (findByIds ids (reports d))"
proof -
  have v: "filter isValid ids = ids"
    using assms by (intro filter_all_length) (simp add: bulkDeleteReports_def split: if_splits)
  let ?found = "findByIds ids (reports d)"
  obtain b d1 where l: "bulkDeleteLoop now reason (u_id actor) ?found d = (b, d1)"
    by (cases "bulkDeleteLoop now reason (u_id actor) ?found d")
  have r: "b \<and> d1 = d'"
    using assms l v by (cases b) (simp_all add: bulkDeleteReports_def Let_def split: if_splits)
  show ?thesis
    using bulkDeleteLoop_notifications [of now reason "u_id actor" ?found d d1] l r by simp
qed

lemma bulkAssignReports_notifications:
  assumes "bulkAssignReports now isValid actor ids aid d = (Inr res, d')"
  shows "notifications d' = notifications d
           @ map (assignmentNotification now aid) (findByIds ids (reports d))"
proof (cases "findUserById aid (users d)")
  case None
  then show ?thesis using assms by (simp add: bulkAssignReports_def split: if_splits)
next
  case (Some a)
  have v: "filter isValid ids = ids"
    using assms Some by (intro filter_all_length) (simp add: bulkAssignReports_def split: if_splits)
  let ?found = "findByIds ids (reports d)"
  obtain b d1 where l: "bulkAssignLoop now a aid (u_id actor) ?found d = (b, d1)"
    by (cases "bulkAssignLoop now a aid (u_id actor) ?found d")
  have r: "b \<and> d1 = d'"
    using assms l v Some
    by (cases b) (simp_all add: bulkAssignReports_def Let_def split: if_splits)
  show ?thesis
    using bulkAssignLoop_notifications [of now a aid "u_id actor" ?found d d1] l r by simp
qed

text \<open>
  C8, amended. A bulk status update that succeeds creates one notification for the
  submitter of each found report when the new status is \<open>resolved\<close>, and none for any
  other status, \<open>closed\<close> included; a bulk delete that succeeds creates one notification
  for the submitter of each report it closes; a bulk assignment that succeeds creates
  one notification for the new assignee per found report. The notifications follow the
  order of the found reports and refer to them.
\<close>

theorem bulk_notifications:
  "(\<forall>res d'. bulkUpdateReportStatus now isValid actor ids st cm d = (Inr res, d') \<longrightarrow>
      notifications d' = notifications d
        @ (if st = ''resolved''
           then map (resolvedNotification now) (findByIds ids (reports d)) else []))
   \<and> (\<forall>res d'. bulkDeleteReports now isValid actor ids reason d = (Inr res, d') \<longrightarrow>
      notifications d' = notifications d
        @ map (closedNotification now reason) (findByIds ids (reports d)))
   \<and> (\<forall>res d'. bulkAssignReports now isValid actor ids aid d = (Inr res, d') \<longrightarrow>
      notifications d' = notifications d
        @ map (assignmentNotification now aid) (findByIds ids (reports d)))
   \<and> n_recipient (resolvedNotification now r) = submittedBy r
   \<and> n_relatedTo (resolvedNotification now r) = Some (''Report'', r_id r)
   \<and> n_recipient (closedNotification now reason r) = submittedBy r
   \<and> n_relatedTo (closedNotification now reason r) = Some (''Report'', r_id r)
   \<and> n_recipient (assignmentNotification now aid r) = aid
   \<and> n_relatedTo (assignmentNotification now aid r) = Some (''Report'', r_id r)"
  using bulkUpdateReportStatus_notifications [of now isValid actor ids st cm d]
    bulkDeleteReports_notifications [of now isValid actor ids reason d]
    bulkAssignReports_notifications [of now isValid actor ids aid d]
  by (simp add: resolvedNotification_def closedNotification_def assignmentNotification_def
        newNotification_def)

text \<open>
  C8, as stated, fails: the bulk status update of report \<open>r1\<close> to \<open>closed\<close> succeeds and
  creates no notification.
\<close>

theorem bulk_close_sends_no_notification:
  "\<not> isl (fst (bulkUpdateReportStatus 5 exValid exAdmin [''r1''] ''closed'' None exDb))
   \<and> map status (reports (snd (bulkUpdateReportStatus 5 exValid exAdmin [''r1''] ''closed'' None exDb)))
       = [''closed'']
   \<and> notifications (snd (bulkUpdateReportStatus 5 exValid exAdmin [''r1''] ''closed'' None exDb)) = []"
  by (simp add: bulkUpdateReportStatus_def findByIds_def ex_defs op_defs)

theorem bulk_notifications_witness:
  "\<not> isl (fst (bulkDeleteReports 5 exValid exAdmin [''r1'', ''r7''] None exDb))
   \<and> map n_recipient (notifications (snd (bulkDeleteReports 5 exValid exAdmin [''r1'', ''r7''] None exDb)))
       = [''u1'']"
proof -
  have "\<exists>res d1. bulkDeleteReports 5 exValid exAdmin [''r1'', ''r7''] None exDb = (Inr res, d1)"
    by (simp add: bulkDeleteReports_def findByIds_def ex_defs op_defs)
  then obtain res d1 where a: "bulkDeleteReports 5 exValid exAdmin [''r1'', ''r7''] None exDb = (Inr res, d1)"
    by blast
  have "notifications d1 = notifications exDb
          @ map (closedNotification 5 None) (findByIds [''r1'', ''r7''] (reports exDb))"
    using bulk_notifications [where now = 5 and isValid = exValid and actor = exAdmin
        and ids = "[''r1'', ''r7'']" and reason = None and d = exDb] a
    by blast
  then have "map n_recipient (notifications d1) = [''u1'']"
    by (simp add: findByIds_def exDb_def exReport_def closedNotification_def newNotification_def)
  then show ?thesis
    using a by simp
qed

section \<open>Input contract of the bulk operations\<close>































section \<open>Resolution time\<close>

lemma first_of_filter:
  "(case map f (filter P xs) of [] \<Rightarrow> None | t # ts \<Rightarrow> Some (t - c))
     = (case find P xs of None \<Rightarrow> None | Some e \<Rightarrow> Some (f e - (c::int)))"
  by (induction xs) simp_all

lemma resolutionTime_spec: "resolutionTime r = specResolutionTime r"
  by (simp add: resolutionTime_def specResolutionTime_def first_of_filter)

lemma matchResolved_time:
  "matchResolved r \<Longrightarrow> resolutionTime r = Some (specResolutionMs r)"
proof -
  assume "matchResolved r"
  then have "\<exists>e\<in>set (timeline r). te_status e = ''resolved''"
    by (simp add: matchResolved_def list_ex_iff)
  then have "find (\<lambda>e. te_status e = ''resolved'') (timeline r) \<noteq> None"
    by (auto simp: find_None_iff)
  then show ?thesis
    by (auto simp: resolutionTime_spec specResolutionMs_def specResolutionTime_def)
qed

lemma numericValues_matched:
  "list_all matchResolved ms \<Longrightarrow> numericValues (map resolutionTime ms) = map specResolutionMs ms"
  by (induction ms) (simp_all add: matchResolved_time)

lemma performanceStats_filter:
  "performanceStats (filter matchResolved rs) = performanceStats rs"
  by (simp add: performanceStats_def)

lemma averageResolutionHours_spec:
  "averageResolutionHours rs =
     (if filter matchResolved rs = [] then 0
      else round (real_of_int (sum_list (map specResolutionMs (filter matchResolved rs)))
                    / real (length (filter matchResolved rs)) / (1000 * 60 * 60)))"
proof -
  have "list_all matchResolved (filter matchResolved rs)" by (simp add: list_all_iff)
  then have n: "numericValues (map resolutionTime (filter matchResolved rs))
                  = map specResolutionMs (filter matchResolved rs)"
    by (rule numericValues_matched)
  show ?thesis
    by (simp add: averageResolutionHours_def performanceStats_def Let_def n)
qed

lemma find_first:
  "\<forall>e\<in>set pre. \<not> P e \<Longrightarrow> P e \<Longrightarrow> find P (pre @ e # post) = Some e"
  by (induction pre) simp_all

lemma round_48: "round (real_of_int (48 * 3600000) / 1 / (1000 * 60 * 60)) = 48"
  by simp

text \<open>
  C4, amended, for the performance statistics of \<open>getSystemStatistics\<close>. The time the
  pipeline computes for a report is the time from creation to the first resolved
  timeline entry; only reports whose current status is \<open>resolved\<close> and that have such an
  entry enter the aggregate, every other report contributes nothing; the result is the
  average of these times in hours, rounded once, and 0 when no report qualifies; a
  report in status \<open>resolved\<close> whose first resolved entry is 48 hours after creation
  counts as 48 hours whatever precedes or follows that entry.
\<close>

theorem resolution_time_of_resolved_reports:
  "resolutionTime r = specResolutionTime r
   \<and> averageResolutionHours rs = averageResolutionHours (filter matchResolved rs)
   \<and> averageResolutionHours rs =
       (if filter matchResolved rs = [] then 0
        else round (real_of_int (sum_list (map specResolutionMs (filter matchResolved rs)))
                      / real (length (filter matchResolved rs)) / (1000 * 60 * 60)))
   \<and> (status r = ''resolved'' \<and> timeline r = pre @ e # post
        \<and> (\<forall>x\<in>set pre. te_status x \<noteq> ''resolved'') \<and> te_status e = ''resolved''
        \<and> te_timestamp e = createdAt r + 48 * 3600000 \<longrightarrow>
        matchResolved r \<and> resolutionTime r = Some (48 * 3600000)
        \<and> averageResolutionHours [r] = 48)"
proof -
  have A: "resolutionTime r = specResolutionTime r" by (rule resolutionTime_spec)
  have B: "averageResolutionHours rs = averageResolutionHours (filter matchResolved rs)"
    by (simp add: averageResolutionHours_def performanceStats_filter)
  have C: "averageResolutionHours rs =
       (if filter matchResolved rs = [] then 0
        else round (real_of_int (sum_list (map specResolutionMs (filter matchResolved rs)))
                      / real (length (filter matchResolved rs)) / (1000 * 60 * 60)))"
    by (rule averageResolutionHours_spec)
  have D: "status r = ''resolved'' \<and> timeline r = pre @ e # post
        \<and> (\<forall>x\<in>set pre. te_status x \<noteq> ''resolved'') \<and> te_status e = ''resolved''
        \<and> te_timestamp e = createdAt r + 48 * 3600000 \<longrightarrow>
        matchResolved r \<and> resolutionTime r = Some (48 * 3600000)
        \<and> averageResolutionHours [r] = 48"
  proof
    assume h: "status r = ''resolved'' \<and> timeline r = pre @ e # post
        \<and> (\<forall>x\<in>set pre. te_status x \<noteq> ''resolved'') \<and> te_status e = ''resolved''
        \<and> te_timestamp e = createdAt r + 48 * 3600000"
    have m: "matchResolved r" using h by (auto simp: matchResolved_def list_ex_iff)
    have f: "find (\<lambda>e. te_status e = ''resolved'') (timeline r) = Some e"
      using h find_first [of pre "\<lambda>e. te_status e = ''resolved''" e post] by simp
    have t: "specResolutionTime r = Some (48 * 3600000)"
      using f h by (simp add: specResolutionTime_def)
    have ms: "specResolutionMs r = 48 * 3600000" using t by (simp add: specResolutionMs_def)
    have "averageResolutionHours [r] = 48"
      using m ms by (simp add: averageResolutionHours_spec)
    then show "matchResolved r \<and> resolutionTime r = Some (48 * 3600000)
        \<and> averageResolutionHours [r] = 48"
      using m t A by simp
  qed
  show ?thesis by (rule conjI [OF A conjI [OF B conjI [OF C D]]])
qed

text \<open>
  C4, as stated, fails: a report created at 0, resolved 48 hours later and then closed
  has a first resolved entry at 48 hours, and the aggregate over it is 0, not 48.
\<close>

theorem closed_report_contributes_nothing:
  "createdAt exClosedLater = 0
   \<and> specResolutionTime exClosedLater = Some (48 * 3600000)
   \<and> averageResolutionHours [exClosedLater] = 0"
  by (simp add: exClosedLater_def exReport_def specResolutionTime_def averageResolutionHours_def
        performanceStats_def matchResolved_def)

theorem resolution_time_of_resolved_reports_witness:
  "status exResolvedTwice = ''resolved''
   \<and> map te_status (timeline exResolvedTwice) = [''submitted'', ''resolved'', ''in_progress'', ''resolved'']
   \<and> averageResolutionHours [exResolvedTwice] = 48
   \<and> averageResolutionHours [exClosedLater, exResolvedTwice, exReport] = 48"
proof -
  let ?e = "\<lparr>te_status = ''resolved'', te_timestamp = 172800000, te_comment = None,
         te_updatedBy = ''e1''\<rparr>"
  let ?post = "[\<lparr>te_status = ''in_progress'', te_timestamp = 180000000, te_comment = None,
         te_updatedBy = ''e1''\<rparr>,
        \<lparr>te_status = ''resolved'', te_timestamp = 190000000, te_comment = None,
         te_updatedBy = ''e1''\<rparr>]"
  have h: "status exResolvedTwice = ''resolved''
        \<and> timeline exResolvedTwice = timeline exReport @ ?e # ?post
        \<and> (\<forall>x\<in>set (timeline exReport). te_status x \<noteq> ''resolved'') \<and> te_status ?e = ''resolved''
        \<and> te_timestamp ?e = createdAt exResolvedTwice + 48 * 3600000"
    by (simp add: exResolvedTwice_def exReport_def)
  note T = resolution_time_of_resolved_reports [where r = exResolvedTwice and pre = "timeline exReport"
      and e = ?e and post = ?post and rs = "[exClosedLater, exResolvedTwice, exReport]"]
  have one: "averageResolutionHours [exResolvedTwice] = 48" using T h by blast
  have flt: "filter matchResolved [exClosedLater, exResolvedTwice, exReport] = [exResolvedTwice]"
    by (simp add: matchResolved_def exClosedLater_def exResolvedTwice_def exReport_def)
  have "averageResolutionHours [exClosedLater, exResolvedTwice, exReport]
          = averageResolutionHours (filter matchResolved [exClosedLater, exResolvedTwice, exReport])"
    using T by blast
  then have three: "averageResolutionHours [exClosedLater, exResolvedTwice, exReport] = 48"
    using flt one by simp
  show ?thesis
    using one three by (simp add: exResolvedTwice_def exReport_def)
qed

section \<open>Visibility scope and paging\<close>

















section \<open>Search filters\<close>

lemma buildQuery_status_only:
  "buildQuery sv q = (buildQuery sv (q\<lparr>s_status := None\<rparr>))\<lparr>m_status := fieldCond (s_status q)\<rparr>"
  by (simp add: buildQuery_def)

lemma matches_status_split:
  "matches sv (buildQuery sv q) r
     = (condHolds (fieldCond (s_status q)) (status r)
        \<and> matches sv (buildQuery sv (q\<lparr>s_status := None\<rparr>)) r)"
proof -
  have n: "fieldCond None = None" by (simp add: fieldCond_def qtruthy_def)
  have "matches sv ((buildQuery sv (q\<lparr>s_status := None\<rparr>))\<lparr>m_status := fieldCond (s_status q)\<rparr>) r
          = (condHolds (fieldCond (s_status q)) (status r)
             \<and> matches sv (buildQuery sv (q\<lparr>s_status := None\<rparr>)) r)"
    by (auto simp: matches_def buildQuery_def n condHolds_def)
  then show ?thesis using buildQuery_status_only [of sv q] by simp
qed

lemma matches_category_split:
  "matches sv (buildQuery sv q) r
     = (condHolds (fieldCond (s_category q)) (category r)
        \<and> matches sv (buildQuery sv (q\<lparr>s_category := None\<rparr>)) r)"
proof -
  have n: "fieldCond None = None" by (simp add: fieldCond_def qtruthy_def)
  show ?thesis by (auto simp: matches_def buildQuery_def n condHolds_def)
qed

lemma matches_priority_split:
  "matches sv (buildQuery sv q) r
     = (condHolds (fieldCond (s_priority q)) (priority r)
        \<and> matches sv (buildQuery sv (q\<lparr>s_priority := None\<rparr>)) r)"
proof -
  have n: "fieldCond None = None" by (simp add: fieldCond_def qtruthy_def)
  show ?thesis by (auto simp: matches_def buildQuery_def n condHolds_def)
qed

lemma fieldCond_cases:
  "condHolds (fieldCond None) v"
  "condHolds (fieldCond (Some (QArr xs))) v = (v \<in> set xs)"
  "s \<noteq> [] \<Longrightarrow> condHolds (fieldCond (Some (QStr s))) v = (v = s)"
  "condHolds (fieldCond (Some (QStr []))) v"
  by (simp_all add: condHolds_def fieldCond_def qtruthy_def)

lemma omitted_parameters_impose_nothing:
  "noSearchFilters q \<Longrightarrow> matches sv (buildQuery sv q) r"
  by (simp add: noSearchFilters_def buildQuery_def truthy_def fieldCond_def qtruthy_def
        existsCond_def matches_def condHolds_def)

lemma array_parameter_is_any_of:
  "s_status q = Some (QArr xs) \<Longrightarrow>
   matches sv (buildQuery sv q) r
     = (status r \<in> set xs \<and> matches sv (buildQuery sv (q\<lparr>s_status := None\<rparr>)) r)"
  "s_category q = Some (QArr xs) \<Longrightarrow>
   matches sv (buildQuery sv q) r
     = (category r \<in> set xs \<and> matches sv (buildQuery sv (q\<lparr>s_category := None\<rparr>)) r)"
  "s_priority q = Some (QArr xs) \<Longrightarrow>
   matches sv (buildQuery sv q) r
     = (priority r \<in> set xs \<and> matches sv (buildQuery sv (q\<lparr>s_priority := None\<rparr>)) r)"
  using matches_status_split [of sv q r] matches_category_split [of sv q r]
    matches_priority_split [of sv q r]
  by (simp_all add: fieldCond_cases)

lemma string_parameter_is_equality:
  "s_status q = Some (QStr s) \<Longrightarrow> s \<noteq> [] \<Longrightarrow>
   matches sv (buildQuery sv q) r
     = (status r = s \<and> matches sv (buildQuery sv (q\<lparr>s_status := None\<rparr>)) r)"
  using matches_status_split [of sv q r] by (simp add: fieldCond_cases)

lemma sorted_two:
  "sortDocs ''createdAt'' (- 1) [exReport, exInReview] = [exInReview, exReport]"
  by (simp add: sortDocs_def fieldValue_def exReport_def exInReview_def)

text \<open>
  C7. An omitted parameter imposes nothing and an array value means \<open>is any of\<close> (the
  lemmas above). A comma list arrives as one string, and the search compares the field
  with the whole string: on three reports in status \<open>submitted\<close>, \<open>in_review\<close> and
  \<open>assigned\<close>, the search for \<open>status=submitted,in_review\<close> finds nothing, while the
  array of the two values finds the two reports.
\<close>

theorem comma_list_is_compared_as_one_string:
  "map status (reports exDb3) = [''submitted'', ''in_review'', ''assigned'']
   \<and> advancedReportSearch exServices (exSearch\<lparr>s_status := Some (QStr ''submitted,in_review'')\<rparr>) exDb3
       = Inr \<lparr>sr_reports = [],
              sr_pagination = \<lparr>sp_currentPage = 1, sp_totalPages = Some 0, sp_totalReports = 0,
                                sp_hasNextPage = False, sp_hasPrevPage = False, sp_limit = 20\<rparr>\<rparr>
   \<and> advancedReportSearch exServices
         (exSearch\<lparr>s_status := Some (QArr [''submitted'', ''in_review''])\<rparr>) exDb3
       = Inr \<lparr>sr_reports = [exInReview, exReport],
              sr_pagination = \<lparr>sp_currentPage = 1, sp_totalPages = Some 1, sp_totalReports = 2,
                                sp_hasNextPage = False, sp_hasPrevPage = False, sp_limit = 20\<rparr>\<rparr>"
proof -
  have st: "map status (reports exDb3) = [''submitted'', ''in_review'', ''assigned'']"
    by (simp add: exDb3_def exReport_def exInReview_def exAssigned_def)
  have b1: "buildQuery exServices (exSearch\<lparr>s_status := Some (QStr ''submitted,in_review'')\<rparr>)
            = \<lparr>m_searchOr = None, m_status = Some (Eq ''submitted,in_review''), m_category = None,
               m_priority = None, m_assignedTo = None, m_submittedBy = None, m_createdAt = None,
               m_city = None, m_images0Exists = None, m_feedbackRatingExists = None\<rparr>"
    by (simp add: buildQuery_def exSearch_def truthy_def fieldCond_def qtruthy_def existsCond_def)
  have b2: "buildQuery exServices (exSearch\<lparr>s_status := Some (QArr [''submitted'', ''in_review''])\<rparr>)
            = \<lparr>m_searchOr = None, m_status = Some (In [''submitted'', ''in_review'']), m_category = None,
               m_priority = None, m_assignedTo = None, m_submittedBy = None, m_createdAt = None,
               m_city = None, m_images0Exists = None, m_feedbackRatingExists = None\<rparr>"
    by (simp add: buildQuery_def exSearch_def truthy_def fieldCond_def qtruthy_def existsCond_def)
  have f1: "filter (matches exServices (buildQuery exServices (exSearch\<lparr>s_status := Some (QStr ''submitted,in_review'')\<rparr>)))
              (reports exDb3) = []"
    by (simp add: b1 matches_def condHolds_def exDb3_def exReport_def exInReview_def exAssigned_def)
  have f2: "filter (matches exServices (buildQuery exServices (exSearch\<lparr>s_status := Some (QArr [''submitted'', ''in_review''])\<rparr>)))
              (reports exDb3) = [exReport, exInReview]"
    by (simp add: b2 matches_def condHolds_def exDb3_def exReport_def exInReview_def exAssigned_def)
  have c1: "queryCastable (buildQuery exServices (exSearch\<lparr>s_status := Some (QStr ''submitted,in_review'')\<rparr>))"
    by (simp add: b1 queryCastable_def)
  have c2: "queryCastable (buildQuery exServices (exSearch\<lparr>s_status := Some (QArr [''submitted'', ''in_review''])\<rparr>))"
    by (simp add: b2 queryCastable_def)
  have q: "s_page (exSearch\<lparr>s_status := x\<rparr>) = Some 1" "s_limit (exSearch\<lparr>s_status := x\<rparr>) = Some 20"
    "s_sortField (exSearch\<lparr>s_status := x\<rparr>) = ''createdAt''" "s_sortDir (exSearch\<lparr>s_status := x\<rparr>) = - 1"
    for x
    by (simp_all add: exSearch_def s_sortField_def s_sortDir_def)
  have r1: "advancedReportSearch exServices (exSearch\<lparr>s_status := Some (QStr ''submitted,in_review'')\<rparr>) exDb3
       = Inr \<lparr>sr_reports = [],
              sr_pagination = \<lparr>sp_currentPage = 1, sp_totalPages = Some 0, sp_totalReports = 0,
                                sp_hasNextPage = False, sp_hasPrevPage = False, sp_limit = 20\<rparr>\<rparr>"
    by (simp add: advancedReportSearch_def q c1 Let_def findPage_def countDocuments_def f1
          sortDocs_def ceilDiv_def)
  have r2: "advancedReportSearch exServices
         (exSearch\<lparr>s_status := Some (QArr [''submitted'', ''in_review''])\<rparr>) exDb3
       = Inr \<lparr>sr_reports = [exInReview, exReport],
              sr_pagination = \<lparr>sp_currentPage = 1, sp_totalPages = Some 1, sp_totalReports = 2,
                                sp_hasNextPage = False, sp_hasPrevPage = False, sp_limit = 20\<rparr>\<rparr>"
    by (simp add: advancedReportSearch_def q c2 Let_def findPage_def countDocuments_def f2
          sorted_two ceilDiv_def ceiling_def)
  show ?thesis by (rule conjI [OF st conjI [OF r1 r2]])
qed

theorem comma_list_is_compared_as_one_string_witness:
  "advancedReportSearch exServices (exSearch\<lparr>s_status := Some (QStr ''submitted,in_review'')\<rparr>) exDb3
     \<noteq> advancedReportSearch exServices
         (exSearch\<lparr>s_status := Some (QArr [''submitted'', ''in_review''])\<rparr>) exDb3"
  using comma_list_is_compared_as_one_string by simp

end
